theory Spec2Isabelle
  imports Main "HOL-Library.Sublist" "HOL-Library.Char_ord" "HOL-Library.List_Lexorder"
begin

section \<open>Python strings\<close>

text \<open>
  The module \<^verbatim>\<open>modules/mark2epub.py\<close> works on Python \<^verbatim>\<open>str\<close> values. A text is
  modelled as a \<^typ>\<open>string\<close>, each \<^typ>\<open>char\<close> standing for one code point below 256;
  the characters the code inspects (line feed, dot, slash, brackets, digits, white space)
  all lie in that range.
\<close>

text \<open>\<^verbatim>\<open>s.split(c)\<close> for a one-character separator: never empty, one more field than
  there are separators.\<close>

fun py_split :: "char \<Rightarrow> string \<Rightarrow> string list" where
  "py_split c [] = [[]]"
| "py_split c (x # xs) =
     (if x = c then [] # py_split c xs
      else (x # hd (py_split c xs)) # tl (py_split c xs))"

text \<open>\<^verbatim>\<open>sep.join(parts)\<close>.\<close>

fun py_join :: "string \<Rightarrow> string list \<Rightarrow> string" where
  "py_join sep [] = []"
| "py_join sep [p] = p"
| "py_join sep (p # q # ps) = p @ sep @ py_join sep (q # ps)"

text \<open>The code points below 256 that \<^verbatim>\<open>str.strip()\<close> removes: U+0009..U+000D,
  U+001C..U+0020, U+0085 and U+00A0.\<close>

definition is_space :: "char \<Rightarrow> bool" where
  "is_space c =
     (let n = (of_char c :: nat)
      in (9 \<le> n \<and> n \<le> 13) \<or> (28 \<le> n \<and> n \<le> 32) \<or> n = 133 \<or> n = 160)"

definition py_strip :: "string \<Rightarrow> string" where
  "py_strip s = rev (dropWhile is_space (rev (dropWhile is_space s)))"

text \<open>\<^verbatim>\<open>sub in s\<close> on strings.\<close>

fun py_in :: "string \<Rightarrow> string \<Rightarrow> bool" where
  "py_in sub [] = (sub = [])"
| "py_in sub (c # cs) = (prefix sub (c # cs) \<or> py_in sub cs)"

text \<open>\<^verbatim>\<open>"{:05d}".format(i)\<close> for the non-negative indices \<^verbatim>\<open>enumerate\<close> yields:
  the decimal digits, padded with zeros on the left to at least five characters.\<close>

definition digit_char :: "nat \<Rightarrow> char" where
  "digit_char d = char_of (48 + d)"

fun decimal :: "nat \<Rightarrow> string" where
  "decimal n = (if n < 10 then [digit_char n] else decimal (n div 10) @ [digit_char (n mod 10)])"

definition format_05d :: "nat \<Rightarrow> string" where
  "format_05d i = replicate (5 - length (decimal i)) (CHR ''0'') @ decimal i"

section \<open>Image Resolver: listing the available images\<close>

text \<open>
  \<^verbatim>\<open>get_all_filenames(the_dir, extensions)\<close>. The directory is \<open>None\<close> when
  \<^verbatim>\<open>os.path.exists(the_dir)\<close> is false and otherwise the result of \<^verbatim>\<open>os.listdir\<close>.
\<close>

definition get_all_filenames :: "string list option \<Rightarrow> string list \<Rightarrow> string list" where
  "get_all_filenames the_dir extensions =
     (case the_dir of
        None \<Rightarrow> []
      | Some all_files \<Rightarrow> filter (\<lambda>x. last (py_split (CHR ''.'') x) \<in> set extensions) all_files)"

text \<open>The extension list \<^verbatim>\<open>main\<close> passes.\<close>

definition image_extensions :: "string list" where
  "image_extensions = [''gif'', ''jpg'', ''jpeg'', ''png'']"

text \<open>The text after the last occurrence of a character (the whole text when it does not
  occur).\<close>

definition after_last :: "char \<Rightarrow> string \<Rightarrow> string" where
  "after_last c s = rev (takeWhile (\<lambda>x. x \<noteq> c) (rev s))"

section \<open>Document Builder: the package document\<close>

text \<open>
  \<^verbatim>\<open>get_packageOPF_XML\<close> builds a \<^verbatim>\<open>xml.dom.minidom\<close> tree and returns its
  serialisation \<^verbatim>\<open>doc.toprettyxml()\<close>. The tree is modelled as a datatype; an element
  keeps its attributes in the order of their first \<^verbatim>\<open>setAttribute\<close>, and a later
  \<^verbatim>\<open>setAttribute\<close> of the same name replaces the value in place. The model of
  \<^verbatim>\<open>get_packageOPF_XML\<close> returns the \<^verbatim>\<open>package\<close> element, the only child of the
  document that the library then serialises.
\<close>

datatype xml = Element string "(string \<times> string) list" "xml list" | TextNode string

fun tagName :: "xml \<Rightarrow> string" where
  "tagName (Element t as cs) = t"
| "tagName (TextNode s) = []"

fun attributes :: "xml \<Rightarrow> (string \<times> string) list" where
  "attributes (Element t as cs) = as"
| "attributes (TextNode s) = []"

fun childNodes :: "xml \<Rightarrow> xml list" where
  "childNodes (Element t as cs) = cs"
| "childNodes (TextNode s) = []"

definition getAttribute :: "xml \<Rightarrow> string \<Rightarrow> string option" where
  "getAttribute x k = map_of (attributes x) k"

definition createElement :: "string \<Rightarrow> xml" where
  "createElement t = Element t [] []"

definition createTextNode :: "string \<Rightarrow> xml" where
  "createTextNode s = TextNode s"

fun set_attr :: "string \<Rightarrow> string \<Rightarrow> (string \<times> string) list \<Rightarrow> (string \<times> string) list" where
  "set_attr k v [] = [(k, v)]"
| "set_attr k v ((k', v') # kvs) =
     (if k' = k then (k, v) # kvs else (k', v') # set_attr k v kvs)"

fun setAttribute :: "xml \<Rightarrow> string \<Rightarrow> string \<Rightarrow> xml" where
  "setAttribute (Element t as cs) k v = Element t (set_attr k v as) cs"
| "setAttribute (TextNode s) k v = TextNode s"

fun appendChild :: "xml \<Rightarrow> xml \<Rightarrow> xml" where
  "appendChild (Element t as cs) c = Element t as (cs @ [c])"
| "appendChild (TextNode s) c = TextNode s"

text \<open>One chapter record of the description: \<^verbatim>\<open>{"markdown": ..., "css": ...}\<close>.\<close>

record chapter_entry =
  markdown :: string
  css :: string

text \<open>
  The description document (\<^verbatim>\<open>description.json\<close> after \<^verbatim>\<open>get_metadata_from_user\<close>).
  The \<^verbatim>\<open>metadata\<close> dictionary keeps insertion order, so it is an association list.
\<close>

record description =
  metadata :: "(string \<times> string) list"
  default_css :: "string list"
  chapters :: "chapter_entry list"
  cover_image :: "string option"

text \<open>Lines 144 to 151: one metadata element per entry with a non-empty value.\<close>

definition metadata_entry :: "string \<Rightarrow> string \<Rightarrow> xml" where
  "metadata_entry k v =
     (let x = createElement k;
          x = foldl (\<lambda>x (metadata_type, id_label).
                       if k = metadata_type then setAttribute x ''id'' id_label else x)
                x [(''dc:title'', ''title''), (''dc:creator'', ''creator''),
                   (''dc:identifier'', ''book-id'')]
      in appendChild x (createTextNode v))"

definition metadata_loop :: "(string \<times> string) list \<Rightarrow> xml \<Rightarrow> xml" where
  "metadata_loop items metadata_element =
     foldl (\<lambda>metadata (k, v).
              if length v \<noteq> 0 then appendChild metadata (metadata_entry k v) else metadata)
       metadata_element items"

text \<open>Lines 177 to 182: one manifest item per chapter.\<close>

definition chapter_item :: "nat \<Rightarrow> string \<Rightarrow> xml" where
  "chapter_item i md_filename =
     (let x = createElement ''item'';
          x = setAttribute x ''id'' (''s'' @ format_05d i);
          x = setAttribute x ''href''
                (''s'' @ format_05d i @ ''-'' @ hd (py_split (CHR ''.'') md_filename) @ ''.xhtml'');
          x = setAttribute x ''media-type'' ''application/xhtml+xml''
      in x)"

definition chapter_items_loop :: "string list \<Rightarrow> xml \<Rightarrow> xml" where
  "chapter_items_loop md_filenames manifest =
     foldl (\<lambda>manifest (i, md_filename). appendChild manifest (chapter_item i md_filename))
       manifest (enumerate 0 md_filenames)"

text \<open>Lines 184 to 201: one manifest item per image; the image that equals
  \<^verbatim>\<open>description_data.get("cover_image")\<close> also adds a \<^verbatim>\<open>meta\<close> element to the
  metadata. The loop state is the pair of the metadata and the manifest elements.\<close>

definition image_item :: "nat \<Rightarrow> string \<Rightarrow> xml" where
  "image_item i image_filename =
     (let x = createElement ''item'';
          x = setAttribute x ''id'' (''image-'' @ format_05d i);
          x = setAttribute x ''href'' (''images/'' @ image_filename);
          x = (if py_in ''gif'' image_filename then setAttribute x ''media-type'' ''image/gif''
               else if py_in ''jpg'' image_filename \<or> py_in ''jpeg'' image_filename
                    then setAttribute x ''media-type'' ''image/jpeg''
               else if py_in ''png'' image_filename then setAttribute x ''media-type'' ''image/png''
               else x)
      in x)"

definition cover_meta :: "nat \<Rightarrow> xml" where
  "cover_meta i =
     (let y = createElement ''meta'';
          y = setAttribute y ''name'' ''cover'';
          y = setAttribute y ''content'' (''image-'' @ format_05d i)
      in y)"

definition image_items_loop :: "string list \<Rightarrow> string option \<Rightarrow> xml \<times> xml \<Rightarrow> xml \<times> xml" where
  "image_items_loop image_filenames cover state =
     foldl (\<lambda>(metadata, manifest) (i, image_filename).
              let x = image_item i image_filename
              in if Some image_filename = cover
                 then (appendChild metadata (cover_meta i),
                       appendChild manifest (setAttribute x ''properties'' ''cover-image''))
                 else (metadata, appendChild manifest x))
       state (enumerate 0 image_filenames)"

text \<open>Lines 203 to 208: one manifest item per style sheet.\<close>

definition css_item :: "nat \<Rightarrow> string \<Rightarrow> xml" where
  "css_item i css_filename =
     (let x = createElement ''item'';
          x = setAttribute x ''id'' (''css-'' @ format_05d i);
          x = setAttribute x ''href'' (''css/'' @ css_filename);
          x = setAttribute x ''media-type'' ''text/css''
      in x)"

definition css_items_loop :: "string list \<Rightarrow> xml \<Rightarrow> xml" where
  "css_items_loop css_filenames manifest =
     foldl (\<lambda>manifest (i, css_filename). appendChild manifest (css_item i css_filename))
       manifest (enumerate 0 css_filenames)"

text \<open>Lines 218 to 222: one spine reference per chapter.\<close>

definition chapter_itemref :: "nat \<Rightarrow> xml" where
  "chapter_itemref i =
     (let x = createElement ''itemref'';
          x = setAttribute x ''idref'' (''s'' @ format_05d i);
          x = setAttribute x ''linear'' ''yes''
      in x)"

definition spine_loop :: "string list \<Rightarrow> xml \<Rightarrow> xml" where
  "spine_loop md_filenames spine =
     foldl (\<lambda>spine (i, md_filename). appendChild spine (chapter_itemref i))
       spine (enumerate 0 md_filenames)"

definition get_packageOPF_XML ::
  "string list \<Rightarrow> string list \<Rightarrow> string list \<Rightarrow> description \<Rightarrow> xml" where
  "get_packageOPF_XML md_filenames image_filenames css_filenames description_data =
     (let package = createElement ''package'';
          package = setAttribute package ''xmlns'' ''http://www.idpf.org/2007/opf'';
          package = setAttribute package ''version'' ''3.0'';
          package = setAttribute package ''xml:lang'' ''en'';
          package = setAttribute package ''unique-identifier'' ''pub-id'';
          metadata = createElement ''metadata'';
          metadata = setAttribute metadata ''xmlns:dc'' ''http://purl.org/dc/elements/1.1/'';
          metadata = metadata_loop (description.metadata description_data) metadata;
          manifest = createElement ''manifest'';
          x = createElement ''item'';
          x = setAttribute x ''id'' ''toc'';
          x = setAttribute x ''properties'' ''nav'';
          x = setAttribute x ''href'' ''TOC.xhtml'';
          x = setAttribute x ''media-type'' ''application/xhtml+xml'';
          manifest = appendChild manifest x;
          x = createElement ''item'';
          x = setAttribute x ''id'' ''ncx'';
          x = setAttribute x ''href'' ''toc.ncx'';
          x = setAttribute x ''media-type'' ''application/x-dtbncx+xml'';
          manifest = appendChild manifest x;
          x = createElement ''item'';
          x = setAttribute x ''id'' ''titlepage'';
          x = setAttribute x ''href'' ''titlepage.xhtml'';
          x = setAttribute x ''media-type'' ''application/xhtml+xml'';
          manifest = appendChild manifest x;
          manifest = chapter_items_loop md_filenames manifest;
          (metadata, manifest) =
             image_items_loop image_filenames (cover_image description_data) (metadata, manifest);
          manifest = css_items_loop css_filenames manifest;
          spine = createElement ''spine'';
          spine = setAttribute spine ''toc'' ''ncx'';
          x = createElement ''itemref'';
          x = setAttribute x ''idref'' ''titlepage'';
          x = setAttribute x ''linear'' ''yes'';
          spine = appendChild spine x;
          spine = spine_loop md_filenames spine;
          guide = createElement ''guide'';
          x = createElement ''reference'';
          x = setAttribute x ''type'' ''cover'';
          x = setAttribute x ''title'' ''Cover image'';
          x = setAttribute x ''href'' ''titlepage.xhtml'';
          guide = appendChild guide x;
          package = appendChild package metadata;
          package = appendChild package manifest;
          package = appendChild package spine;
          package = appendChild package guide
      in package)"

text \<open>The children of the package element, in the order lines 231 to 234 append them.\<close>

definition opf_metadata :: "xml \<Rightarrow> xml" where
  "opf_metadata package = childNodes package ! 0"

definition opf_manifest :: "xml \<Rightarrow> xml" where
  "opf_manifest package = childNodes package ! 1"

definition opf_spine :: "xml \<Rightarrow> xml" where
  "opf_spine package = childNodes package ! 2"

text \<open>The manifest item that one round of the image loop appends.\<close>

definition manifest_image_item :: "string option \<Rightarrow> nat \<times> string \<Rightarrow> xml" where
  "manifest_image_item cover p =
     (if Some (snd p) = cover
      then setAttribute (image_item (fst p) (snd p)) ''properties'' ''cover-image''
      else image_item (fst p) (snd p))"

section \<open>Image Resolver: references in the Markdown text\<close>

text \<open>
  \<^verbatim>\<open>process_markdown_for_images\<close> scans the text with the pattern
  \<^verbatim>\<open>!\[(.*?)\]\((.*?)\)\<close>. A dot matches any character but the line feed, and both
  groups are lazy: at each position the rest of the pattern is tried first and one more
  character is taken only when that fails.

  \<open>match_path\<close> is \<^verbatim>\<open>(.*?)\)\<close> at the start of a text and returns group 2;
  \<open>match_alt\<close> is \<^verbatim>\<open>(.*?)\]\((.*?)\)\<close> and returns groups 1 and 2;
  \<open>match_image\<close> is the whole pattern.
\<close>

fun match_path :: "string \<Rightarrow> string option" where
  "match_path [] = None"
| "match_path (c # cs) =
     (if c = CHR '')'' then Some []
      else if c = CHR 0x0A then None
      else map_option (\<lambda>p. c # p) (match_path cs))"

fun match_alt :: "string \<Rightarrow> (string \<times> string) option" where
  "match_alt [] = None"
| "match_alt (c # cs) =
     (case (if c = CHR '']'' \<and> cs \<noteq> [] \<and> hd cs = CHR ''('' then match_path (tl cs) else None) of
        Some p \<Rightarrow> Some ([], p)
      | None \<Rightarrow>
          if c = CHR 0x0A then None
          else map_option (\<lambda>(a, p). (c # a, p)) (match_alt cs))"

definition match_image :: "string \<Rightarrow> (string \<times> string) option" where
  "match_image s =
     (if prefix ''!['' s then match_alt (drop 2 s) else None)"

text \<open>The text a match covers, \<^verbatim>\<open>match.group(0)\<close>, from its two groups.\<close>

definition group0 :: "string \<Rightarrow> string \<Rightarrow> string" where
  "group0 alt_text image_path = ''!['' @ alt_text @ '']('' @ image_path @ '')''"

text \<open>\<^verbatim>\<open>re.finditer\<close>: the matches from left to right, the search going on behind
  each match. A match is the triple of its groups 0, 1 and 2.\<close>

function finditer :: "string \<Rightarrow> (string \<times> string \<times> string) list" where
  "finditer [] = []"
| "finditer (c # cs) =
     (case match_image (c # cs) of
        Some (a, p) \<Rightarrow> (group0 a p, a, p) # finditer (drop (length (group0 a p)) (c # cs))
      | None \<Rightarrow> finditer cs)"
  by pat_completeness auto
termination
  by (relation "measure length") (auto simp: group0_def)

text \<open>\<^verbatim>\<open>s.replace(old, new)\<close>: every occurrence, from left to right, without
  overlaps.\<close>

function py_replace :: "string \<Rightarrow> string \<Rightarrow> string \<Rightarrow> string" where
  "py_replace old new [] = (if old = [] then new else [])"
| "py_replace old new (c # cs) =
     (if old = [] then new @ c # py_replace old new cs
      else if prefix old (c # cs) then new @ py_replace old new (drop (length old) (c # cs))
      else c # py_replace old new cs)"
  by pat_completeness auto
termination
  by (relation "measure (\<lambda>(old, new, s). length s)") auto

text \<open>\<^verbatim>\<open>Path(p).name\<close> on a POSIX system: the last component that is neither empty
  nor a single dot, and the empty string when there is none.\<close>

definition path_name :: "string \<Rightarrow> string" where
  "path_name p =
     (let parts = filter (\<lambda>x. x \<noteq> [] \<and> x \<noteq> ''.'') (py_split (CHR ''/'') p)
      in if parts = [] then [] else last parts)"

text \<open>
  Lines 76 to 97. \<open>image_exists name\<close> stands for
  \<^verbatim>\<open>(work_dir / 'images' / name).exists()\<close>. The warning printed for a missing image
  is not part of the result.
\<close>

definition process_markdown_for_images :: "(string \<Rightarrow> bool) \<Rightarrow> string \<Rightarrow> string \<times> string list" where
  "process_markdown_for_images image_exists markdown_text =
     foldl (\<lambda>(modified_text, images_found) (match_group0, alt_text, image_path).
              let image_path = py_strip image_path;
                  name = path_name image_path
              in if image_exists name
                 then (py_replace match_group0
                         (''!['' @ alt_text @ '']('' @ ''images/'' @ name @ '')'') modified_text,
                       images_found @ [name])
                 else (modified_text, images_found))
       (markdown_text, []) (finditer markdown_text)"

section \<open>Document Builder: container, title page and navigation documents\<close>

definition get_container_XML :: string where
  \<open>get_container_XML = ''<?xml version="1.0" encoding="UTF-8" ?>\<newline><container version="1.0" xmlns="urn:oasis:names:tc:opendocument:xmlns:container">\<newline><rootfiles>\<newline><rootfile full-path="OPS/package.opf" media-type="application/oebps-package+xml"/>\<newline></rootfiles>\<newline></container>''\<close>

definition get_coverpage_XML :: "string \<Rightarrow> string \<Rightarrow> string" where
  \<open>get_coverpage_XML title authors =
     ''<?xml version="1.0" encoding="utf-8"?>\<newline><html xmlns="http://www.w3.org/1999/xhtml" xml:lang="en">\<newline><head>\<newline><title>Cover Page</title>\<newline><style type="text/css">\<newline>body { \<newline>    margin: 0;\<newline>    padding: 0;\<newline>    height: 100vh;\<newline>    display: flex;\<newline>    justify-content: center;\<newline>    align-items: center;\<newline>    font-family: serif;\<newline>}\<newline>.cover {\<newline>    padding: 3em;\<newline>    text-align: center;\<newline>    border: 1px solid #ccc;\<newline>    max-width: 80%;\<newline>}\<newline>h1 {\<newline>    font-size: 2em;\<newline>    margin-bottom: 1em;\<newline>    line-height: 1.2;\<newline>    color: #333;\<newline>}\<newline>p {\<newline>    font-size: 1.2em;\<newline>    font-style: italic;\<newline>    color: #666;\<newline>    line-height: 1.4;\<newline>}\<newline></style>\<newline></head>\<newline><body>\<newline>    <div class="cover">\<newline>        <h1>''
     @ title
     @ ''</h1>\<newline>        <p>''
     @ authors
     @ ''</p>\<newline>    </div>\<newline></body>\<newline></html>''\<close>

text \<open>The three fixed blocks of \<^verbatim>\<open>get_TOC_XML\<close> (lines 291 to 296, 299 to 303 and 306
  to 309).\<close>

definition TOC_head :: string where
  \<open>TOC_head = ''<?xml version="1.0" encoding="UTF-8"?>\<newline><html xmlns="http://www.w3.org/1999/xhtml" xmlns:epub="http://www.idpf.org/2007/ops" lang="en">\<newline><head>\<newline><meta http-equiv="default-style" content="text/html; charset=utf-8"/>\<newline><title>Contents</title>\<newline>''\<close>

definition TOC_body :: string where
  \<open>TOC_body = ''</head>\<newline><body>\<newline><nav epub:type="toc" role="doc-toc" id="toc">\<newline><h2>Contents</h2>\<newline><ol epub:type="list">''\<close>

definition TOC_tail :: string where
  \<open>TOC_tail = ''</ol>\<newline></nav>\<newline></body>\<newline></html>''\<close>

definition get_TOC_XML :: "string list \<Rightarrow> string list \<Rightarrow> string" where
  \<open>get_TOC_XML default_css_filenames markdown_filenames =
     (let toc_xhtml = TOC_head;
          toc_xhtml = foldl (\<lambda>toc_xhtml css_filename.
                         toc_xhtml @ ''<link rel="stylesheet" href="css/'' @ css_filename
                           @ ''" type="text/css"/>\<newline>'')
                       toc_xhtml default_css_filenames;
          toc_xhtml = toc_xhtml @ TOC_body;
          toc_xhtml = foldl (\<lambda>toc_xhtml (i, md_filename).
                         toc_xhtml @ ''<li><a href="s'' @ format_05d i @ ''-''
                           @ hd (py_split (CHR ''.'') md_filename) @ ''.xhtml">''
                           @ hd (py_split (CHR ''.'') md_filename) @ ''</a></li>'')
                       toc_xhtml (enumerate 0 markdown_filenames);
          toc_xhtml = toc_xhtml @ TOC_tail
      in toc_xhtml)\<close>

text \<open>The two fixed blocks of \<^verbatim>\<open>get_TOCNCX_XML\<close> (lines 313 to 318 and 325 to 326).\<close>

definition NCX_head :: string where
  \<open>NCX_head = ''<?xml version="1.0" encoding="UTF-8"?>\<newline><ncx xmlns="http://www.daisy.org/z3986/2005/ncx/" xml:lang="fr" version="2005-1">\<newline><head>\<newline></head>\<newline><navMap>\<newline>''\<close>

definition NCX_tail :: string where
  \<open>NCX_tail = ''</navMap>\<newline></ncx>''\<close>

definition get_TOCNCX_XML :: "string list \<Rightarrow> string" where
  \<open>get_TOCNCX_XML markdown_filenames =
     (let toc_ncx = NCX_head;
          toc_ncx = foldl (\<lambda>toc_ncx (i, md_filename).
                       toc_ncx @ ''<navPoint id="navpoint-'' @ decimal i
                         @ ''">\<newline><navLabel>\<newline><text>''
                         @ hd (py_split (CHR ''.'') md_filename)
                         @ ''</text>\<newline></navLabel><content src="s'' @ format_05d i @ ''-''
                         @ hd (py_split (CHR ''.'') md_filename) @ ''.xhtml"/>\<newline></navPoint>'')
                     toc_ncx (enumerate 0 markdown_filenames);
          toc_ncx = toc_ncx @ NCX_tail
      in toc_ncx)\<close>

section \<open>Renderer: one chapter\<close>

text \<open>
  \<^verbatim>\<open>get_chapter_XML\<close>. The Markdown library is a parameter: \<open>markdown_markdown\<close>
  stands for \<^verbatim>\<open>markdown.markdown\<close> with the extensions of lines 352 to 356.
  \<open>markdown_data\<close> is the \<^verbatim>\<open>content\<close> argument, which \<^verbatim>\<open>main\<close> always passes
  (the text of the chapter file otherwise). \<open>chapter_shell\<close> is the template of lines
  359 to 369.
\<close>

text \<open>Lines 344 and 345: the text \<^verbatim>\<open>corrected_markdown\<close> computed from
  \<^verbatim>\<open>markdown_data\<close>.\<close>

definition corrected_markdown :: "string \<Rightarrow> string" where
  "corrected_markdown markdown_data =
     (let lines = py_split (CHR 0x0A) (py_strip markdown_data)
      in py_join [CHR 0x0A, CHR 0x0A] lines)"

definition chapter_shell :: "string \<Rightarrow> string list \<Rightarrow> string \<Rightarrow> string" where
  \<open>chapter_shell md_filename css_filenames html_text =
     ''<?xml version="1.0" encoding="UTF-8"?>\<newline><html xmlns="http://www.w3.org/1999/xhtml" xmlns:epub="http://www.idpf.org/2007/ops" lang="en">\<newline><head>\<newline>    <meta http-equiv="default-style" content="text/html; charset=utf-8"/>\<newline>    <title>''
     @ hd (py_split (CHR ''.'') md_filename)
     @ ''</title>\<newline>    ''
     @ concat (map (\<lambda>css. ''<link rel="stylesheet" href="css/'' @ css
                           @ ''" type="text/css" media="all"/>'') css_filenames)
     @ ''\<newline></head>\<newline><body>\<newline>''
     @ html_text
     @ ''\<newline></body>\<newline></html>''\<close>

definition get_chapter_XML ::
  "(string \<Rightarrow> string) \<Rightarrow> (string \<Rightarrow> bool) \<Rightarrow> string \<Rightarrow> string list \<Rightarrow> string
     \<Rightarrow> string \<times> string list" where
  "get_chapter_XML markdown_markdown image_exists md_filename css_filenames markdown_data =
     (let corrected = corrected_markdown markdown_data;
          (final_markdown, chapter_images) = process_markdown_for_images image_exists corrected;
          html_text = markdown_markdown final_markdown;
          xhtml = chapter_shell md_filename css_filenames html_text
      in (xhtml, chapter_images))"

section \<open>Metadata Store\<close>

datatype py_error = FileNotFoundError | ValueError | EOFError | OSError | KeyError

text \<open>
  \<^verbatim>\<open>get_user_input\<close>. The lines the user types are a list; \<^verbatim>\<open>input()\<close> takes the
  first one and raises \<^verbatim>\<open>EOFError\<close> when none is left. The result carries the lines
  that remain.
\<close>

definition get_user_input :: "string \<Rightarrow> string list \<Rightarrow> py_error + string \<times> string list" where
  "get_user_input default_value lines =
     (case lines of
        [] \<Rightarrow> Inl EOFError
      | line # rest \<Rightarrow>
          let user_input = py_strip line
          in Inr (if user_input \<noteq> [] then user_input else default_value, rest))"

text \<open>\<^verbatim>\<open>d.get(k, default)\<close> on a dictionary of strings.\<close>

definition dict_get :: "(string \<times> string) list \<Rightarrow> string \<Rightarrow> string \<Rightarrow> string" where
  "dict_get d k default_value = (case map_of d k of Some v \<Rightarrow> v | None \<Rightarrow> default_value)"

text \<open>
  Lines 28 to 36: the fields with their defaults. \<open>stamp\<close> is
  \<^verbatim>\<open>datetime.now().strftime('%Y%m%d%H%M%S')\<close> and \<open>today\<close> is
  \<^verbatim>\<open>datetime.now().strftime("%Y-%m-%d")\<close>; the prompts are left out.
\<close>

definition metadata_fields :: "string \<Rightarrow> string \<Rightarrow> (string \<times> string) list \<Rightarrow> (string \<times> string) list" where
  "metadata_fields stamp today stored =
     [(''dc:title'', dict_get stored ''dc:title'' ''Untitled Document''),
      (''dc:creator'', dict_get stored ''dc:creator'' ''Unknown Author''),
      (''dc:identifier'', dict_get stored ''dc:identifier'' (''id-'' @ stamp)),
      (''dc:language'', dict_get stored ''dc:language'' ''en''),
      (''dc:rights'', dict_get stored ''dc:rights'' ''All rights reserved''),
      (''dc:publisher'', dict_get stored ''dc:publisher'' ''PDF2EPUB''),
      (''dc:date'', dict_get stored ''dc:date'' today)]"

text \<open>Lines 38 to 41: one prompt per field, in order.\<close>

fun prompt_fields ::
  "(string \<times> string) list \<Rightarrow> (string \<times> string) list \<Rightarrow> string list
     \<Rightarrow> py_error + (string \<times> string) list \<times> string list" where
  "prompt_fields [] updated_metadata lines = Inr (updated_metadata, lines)"
| "prompt_fields ((key, default_value) # others) updated_metadata lines =
     (case get_user_input default_value lines of
        Inl e \<Rightarrow> Inl e
      | Inr (v, rest) \<Rightarrow> prompt_fields others (updated_metadata @ [(key, v)]) rest)"

text \<open>The description of a project that has no \<^verbatim>\<open>description.json\<close> yet: the empty
  dictionary, every \<^verbatim>\<open>get\<close> of which yields its default.\<close>

definition empty_description :: description where
  "empty_description = \<lparr>metadata = [], default_css = [], chapters = [], cover_image = None\<rparr>"

definition get_metadata_from_user ::
  "string \<Rightarrow> string \<Rightarrow> description option \<Rightarrow> string list \<Rightarrow> py_error + description \<times> string list" where
  "get_metadata_from_user stamp today existing_metadata lines =
     (let existing = (case existing_metadata of None \<Rightarrow> empty_description | Some d \<Rightarrow> d)
      in case prompt_fields (metadata_fields stamp today (metadata existing)) [] lines of
           Inl e \<Rightarrow> Inl e
         | Inr (updated_metadata, rest) \<Rightarrow>
             Inr (\<lparr>metadata = updated_metadata,
                   default_css = default_css existing,
                   chapters = chapters existing,
                   cover_image = cover_image existing\<rparr>, rest))"

section \<open>Review of a chapter before conversion\<close>

text \<open>\<^verbatim>\<open>str.lower()\<close> on code points below 256.\<close>

definition lower_char :: "char \<Rightarrow> char" where
  "lower_char c =
     (let n = (of_char c :: nat)
      in if (65 \<le> n \<and> n \<le> 90) \<or> (192 \<le> n \<and> n \<le> 222 \<and> n \<noteq> 215) then char_of (n + 32) else c)"

definition py_lower :: "string \<Rightarrow> string" where
  "py_lower s = map lower_char s"

text \<open>
  The inner loop of \<^verbatim>\<open>review_markdown\<close> (lines 60 to 66), entered once the editor has
  been started. \<open>updated\<close> is the result of reading the file again (\<open>None\<close> when that
  raises). Every exception in there, the end of the input too, is caught by line 67 and
  the conversion goes on with the text read first.
\<close>

fun await_editor :: "string \<Rightarrow> string option \<Rightarrow> string list \<Rightarrow> (bool \<times> string) \<times> string list" where
  "await_editor content updated [] = ((True, content), [])"
| "await_editor content updated (line # rest) =
     (let proceed = py_lower line
      in if proceed = ''q'' then ((False, content), rest)
         else if proceed = [] then
           (case updated of None \<Rightarrow> ((True, content), rest) | Some updated_content \<Rightarrow> ((True, updated_content), rest))
         else await_editor content updated rest)"

text \<open>
  The outer loop (lines 54 to 74). \<open>editor\<close> is \<open>None\<close> when starting the editor raises
  and \<open>Some updated\<close> otherwise.
\<close>

fun review_loop ::
  "string \<Rightarrow> string option option \<Rightarrow> string list \<Rightarrow> py_error + (bool \<times> string) \<times> string list" where
  "review_loop content editor [] = Inl EOFError"
| "review_loop content editor (line # rest) =
     (let response = py_lower line
      in if response \<in> set [''y'', ''yes''] then
           (case editor of
              None \<Rightarrow> Inr ((True, content), rest)
            | Some updated \<Rightarrow> Inr (await_editor content updated rest))
         else if response \<in> set [''n'', ''no''] then Inr ((True, content), rest)
         else review_loop content editor rest)"

text \<open>\<^verbatim>\<open>review_markdown\<close>: \<open>file_text\<close> is the result of
  \<^verbatim>\<open>markdown_path.read_text\<close>, \<open>None\<close> when it raises.\<close>

definition review_markdown ::
  "string option \<Rightarrow> string option option \<Rightarrow> string list \<Rightarrow> py_error + (bool \<times> string) \<times> string list" where
  "review_markdown file_text editor lines =
     (case file_text of
        None \<Rightarrow> Inl OSError
      | Some content \<Rightarrow> review_loop content editor lines)"

section \<open>Archive Packager\<close>

datatype compression = ZIP_STORED | ZIP_DEFLATED

text \<open>
  What \<^verbatim>\<open>writestr\<close> is given: a text (stored as its UTF-8 encoding, whether the code
  encodes it or leaves that to \<^verbatim>\<open>zipfile\<close>), the serialisation of a tree, or the bytes
  of a file.
\<close>

datatype payload = Utf8 string | Utf8_pretty xml | Raw string

record member =
  arcname :: string
  payload :: payload
  compress_type :: compression

definition writestr :: "member list \<Rightarrow> string \<Rightarrow> payload \<Rightarrow> compression \<Rightarrow> member list" where
  "writestr epub name contents c = epub @ [\<lparr>arcname = name, payload = contents, compress_type = c\<rparr>]"

text \<open>
  The project directory as \<^verbatim>\<open>main\<close> reads it: the result of \<^verbatim>\<open>os.listdir(work_dir)\<close>,
  the parsed \<^verbatim>\<open>description.json\<close> (if the file exists), the text of a file of the
  directory (\<open>None\<close> when reading raises), the style sheets in \<^verbatim>\<open>css/\<close>, the listing of
  \<^verbatim>\<open>images/\<close> (if it exists), the existence test of \<^verbatim>\<open>process_markdown_for_images\<close>
  and the bytes of an image (\<open>None\<close> when reading raises).
\<close>

record workdir =
  dir_listing :: "string list"
  description_json :: "description option"
  read_text :: "string \<Rightarrow> string option"
  css_dir :: "string \<Rightarrow> string option"
  images_listing :: "string list option"
  image_exists :: "string \<Rightarrow> bool"
  image_bytes :: "string \<Rightarrow> string option"

text \<open>The file system: the project directory (\<open>None\<close> when it does not exist), whether
  the archive can be created at the output path, and the archive there.\<close>

record world =
  project :: "workdir option"
  can_create_output :: bool
  epub_file :: "member list option"

text \<open>What a run takes from outside the file system: the lines typed, the clock, the
  editor (per chapter file) and the Markdown library.\<close>

record environment =
  typed_lines :: "string list"
  now_stamp :: string
  now_date :: string
  xdg_open :: "string \<Rightarrow> string option option"
  markdown_markdown :: "string \<Rightarrow> string"

datatype outcome = Completed | Aborted | Raised py_error

definition indent_css :: string where
  \<open>indent_css = ''\<newline>p {\<newline>  text-indent: 1.5em;\<newline>  margin-top: 0;\<newline>  margin-bottom: 0;\<newline>}\<newline>\<newline>/* For starting chapters/sections on a new page */\<newline>h1, h2, h3, h4 {\<newline>  page-break-before: always;\<newline>  text-align: center;\<newline>  margin-top: 3em;\<newline>  margin-bottom: 1.5em;\<newline>  line-height: 1.2;\<newline>}\<newline>''\<close>

text \<open>\<^verbatim>\<open>list(dict.fromkeys(xs))\<close>: the first occurrence of each element, in order.\<close>

definition dict_fromkeys :: "string list \<Rightarrow> string list" where
  "dict_fromkeys xs = foldl (\<lambda>keys x. if x \<in> set keys then keys else keys @ [x]) [] xs"

text \<open>Lines 445 to 452: the review of every chapter; \<open>None\<close> when the user aborts.\<close>

fun review_chapters ::
  "workdir \<Rightarrow> environment \<Rightarrow> chapter_entry list \<Rightarrow> (string \<Rightarrow> string option) \<Rightarrow> string list
     \<Rightarrow> py_error + (string \<Rightarrow> string option) option \<times> string list" where
  "review_chapters wd env [] chapter_contents lines = Inr (Some chapter_contents, lines)"
| "review_chapters wd env (ch # chs) chapter_contents lines =
     (case review_markdown (read_text wd (markdown ch)) (xdg_open env (markdown ch)) lines of
        Inl e \<Rightarrow> Inl e
      | Inr ((should_continue, content), rest) \<Rightarrow>
          if \<not> should_continue then Inr (None, rest)
          else review_chapters wd env chs (chapter_contents(markdown ch \<mapsto> content)) rest)"

text \<open>Lines 464 to 471: the XHTML of every chapter. The set of referenced images that
  the loop also collects is not used afterwards.\<close>

fun render_chapters ::
  "workdir \<Rightarrow> environment \<Rightarrow> string list \<Rightarrow> (string \<Rightarrow> string option) \<Rightarrow> chapter_entry list
     \<Rightarrow> (string \<Rightarrow> string option) \<Rightarrow> py_error + (string \<Rightarrow> string option)" where
  "render_chapters wd env css_files chapter_contents [] chapter_data = Inr chapter_data"
| "render_chapters wd env css_files chapter_contents (ch # chs) chapter_data =
     (case chapter_contents (markdown ch) of
        None \<Rightarrow> Inl KeyError
      | Some content \<Rightarrow>
          render_chapters wd env css_files chapter_contents chs
            (chapter_data(markdown ch \<mapsto>
               fst (get_chapter_XML (markdown_markdown env) (image_exists wd) (markdown ch)
                      css_files content))))"

text \<open>Lines 493 to 498.\<close>

fun write_chapters ::
  "(string \<Rightarrow> string option) \<Rightarrow> (nat \<times> string) list \<Rightarrow> member list \<Rightarrow> py_error option \<times> member list" where
  "write_chapters chapter_data [] epub = (None, epub)"
| "write_chapters chapter_data ((i, md_filename) # rest) epub =
     (case chapter_data md_filename of
        None \<Rightarrow> (Some KeyError, epub)
      | Some xhtml \<Rightarrow>
          write_chapters chapter_data rest
            (writestr epub
               (''OPS/s'' @ format_05d i @ ''-'' @ hd (py_split (CHR ''.'') md_filename) @ ''.xhtml'')
               (Utf8 xhtml) ZIP_DEFLATED))"

text \<open>Lines 500 to 505.\<close>

fun write_images ::
  "(string \<Rightarrow> string option) \<Rightarrow> string list \<Rightarrow> member list \<Rightarrow> py_error option \<times> member list" where
  "write_images bytes [] epub = (None, epub)"
| "write_images bytes (image_name # rest) epub =
     (case bytes image_name of
        None \<Rightarrow> (Some OSError, epub)
      | Some b \<Rightarrow>
          write_images bytes rest
            (writestr epub (''OPS/images/'' @ image_name) (Raw b) ZIP_DEFLATED))"

text \<open>Lines 517 to 523: a style sheet that is not on disk is skipped. The directory
  \<^verbatim>\<open>css/\<close> itself exists, as \<^verbatim>\<open>main\<close> has created it.\<close>

definition write_css :: "(string \<Rightarrow> string option) \<Rightarrow> string list \<Rightarrow> member list \<Rightarrow> member list" where
  "write_css sheets all_css_filenames epub =
     foldl (\<lambda>epub css.
              case sheets css of
                None \<Rightarrow> epub
              | Some b \<Rightarrow> writestr epub (''OPS/css/'' @ css) (Raw b) ZIP_DEFLATED)
       epub all_css_filenames"

text \<open>Lines 474 to 523: the members written into the archive, with the exception that
  ended the block early, if any.\<close>

definition write_epub ::
  "workdir \<Rightarrow> description \<Rightarrow> string list \<Rightarrow> string list \<Rightarrow> (string \<Rightarrow> string option) \<Rightarrow> string \<Rightarrow> string
     \<Rightarrow> py_error option \<times> member list" where
  "write_epub wd json_data all_md_filenames all_css_filenames chapter_data title authors =
     (let epub = [];
          epub = writestr epub ''mimetype'' (Utf8 ''application/epub+zip'') ZIP_STORED;
          epub = writestr epub ''META-INF/container.xml'' (Utf8 get_container_XML) ZIP_DEFLATED;
          all_available_images = get_all_filenames (images_listing wd) image_extensions;
          epub = writestr epub ''OPS/package.opf''
                   (Utf8_pretty (get_packageOPF_XML all_md_filenames all_available_images
                                   all_css_filenames json_data))
                   ZIP_DEFLATED;
          epub = writestr epub ''OPS/titlepage.xhtml'' (Utf8 (get_coverpage_XML title authors))
                   ZIP_DEFLATED
      in case write_chapters chapter_data (enumerate 0 all_md_filenames) epub of
           (Some e, epub) \<Rightarrow> (Some e, epub)
         | (None, epub) \<Rightarrow>
             (case write_images (image_bytes wd) all_available_images epub of
                (Some e, epub) \<Rightarrow> (Some e, epub)
              | (None, epub) \<Rightarrow>
                  let epub = writestr epub ''OPS/TOC.xhtml''
                               (Utf8 (get_TOC_XML all_css_filenames all_md_filenames)) ZIP_DEFLATED;
                      epub = writestr epub ''OPS/toc.ncx''
                               (Utf8 (get_TOCNCX_XML all_md_filenames)) ZIP_DEFLATED;
                      epub = write_css (css_dir wd) all_css_filenames epub
                  in (None, epub)))"

text \<open>
  \<^verbatim>\<open>main\<close>, called with the project directory and the output path, in four parts.
  The messages printed are left out.

  Lines 393 to 415: the style sheet \<^verbatim>\<open>css/stylesheet.css\<close> is created unless it
  exists.
\<close>

definition ensure_stylesheet :: "workdir \<Rightarrow> workdir" where
  "ensure_stylesheet wd =
     (if css_dir wd ''stylesheet.css'' = None
      then wd\<lparr>css_dir := (css_dir wd)(''stylesheet.css'' \<mapsto> indent_css)\<rparr>
      else wd)"

text \<open>Lines 430 to 440: the style sheet is added to \<^verbatim>\<open>default_css\<close> and an empty
  chapter list is filled with the Markdown files of the directory, sorted by name.\<close>

definition complete_description :: "workdir \<Rightarrow> description \<Rightarrow> description" where
  "complete_description wd json_data =
     (let json_data =
            (if ''stylesheet.css'' \<notin> set (default_css json_data)
             then json_data\<lparr>default_css := default_css json_data @ [''stylesheet.css'']\<rparr>
             else json_data);
          json_data =
            (if chapters json_data = []
             then json_data\<lparr>chapters :=
                    map (\<lambda>md_file. \<lparr>markdown = md_file, css = []\<rparr>)
                      (sort (filter (suffix ''.md'') (dir_listing wd)))\<rparr>
             else json_data)
      in json_data)"

text \<open>Lines 454 to 523: the chapters are rendered and the archive is written. Opening
  the archive raises when it cannot be created; an exception inside the block leaves the
  members written so far.\<close>

definition package_chapters ::
  "environment \<Rightarrow> workdir \<Rightarrow> world \<Rightarrow> description \<Rightarrow> (string \<Rightarrow> string option) \<Rightarrow> outcome \<times> world" where
  "package_chapters env wd w json_data chapter_contents =
     (let title = dict_get (metadata json_data) ''dc:title'' ''Untitled Document'';
          authors = dict_get (metadata json_data) ''dc:creator'' ''Unknown Author'';
          all_md_filenames = map markdown (chapters json_data);
          all_css_filenames = dict_fromkeys (default_css json_data)
      in case render_chapters wd env (default_css json_data) chapter_contents
                (chapters json_data) Map.empty of
           Inl e \<Rightarrow> (Raised e, w)
         | Inr chapter_data \<Rightarrow>
             if \<not> can_create_output w then (Raised OSError, w)
             else (case write_epub wd json_data all_md_filenames all_css_filenames
                          chapter_data title authors of
                     (Some e, epub) \<Rightarrow> (Raised e, w\<lparr>epub_file := Some epub\<rparr>)
                   | (None, epub) \<Rightarrow> (Completed, w\<lparr>epub_file := Some epub\<rparr>)))"

text \<open>The whole of \<^verbatim>\<open>main\<close>. Creating \<^verbatim>\<open>css/\<close> raises when the project directory
  does not exist; the description is written back (line 442) before the chapters are
  reviewed.\<close>

definition main :: "environment \<Rightarrow> world \<Rightarrow> outcome \<times> world" where
  "main env w =
     (case project w of
        None \<Rightarrow> (Raised FileNotFoundError, w)
      | Some wd \<Rightarrow>
          let wd = ensure_stylesheet wd;
              w = w\<lparr>project := Some wd\<rparr>
          in case get_metadata_from_user (now_stamp env) (now_date env) (description_json wd)
                    (typed_lines env) of
               Inl e \<Rightarrow> (Raised e, w)
             | Inr (json_data, lines) \<Rightarrow>
                 let json_data = complete_description wd json_data;
                     wd = wd\<lparr>description_json := Some json_data\<rparr>;
                     w = w\<lparr>project := Some wd\<rparr>
                 in case review_chapters wd env (chapters json_data) Map.empty lines of
                      Inl e \<Rightarrow> (Raised e, w)
                    | Inr (None, rest) \<Rightarrow> (Aborted, w)
                    | Inr (Some chapter_contents, rest) \<Rightarrow>
                        package_chapters env wd w json_data chapter_contents)"

text \<open>\<^verbatim>\<open>convert_to_epub\<close>: \<^verbatim>\<open>markdown_dir.glob('*.md')\<close> yields the entries of the
  directory whose names end in \<^verbatim>\<open>.md\<close>.\<close>

definition convert_to_epub :: "environment \<Rightarrow> world \<Rightarrow> outcome \<times> world" where
  "convert_to_epub env w =
     (case project w of
        None \<Rightarrow> (Raised FileNotFoundError, w)
      | Some wd \<Rightarrow>
          if filter (suffix ''.md'') (dir_listing wd) = [] then (Raised ValueError, w)
          else main env w)"

section \<open>Notions the properties are stated with\<close>

text \<open>The name of a chapter without its extension, \<^verbatim>\<open>md_filename.split(".")[0]\<close>, and
  the identifier and the file name of chapter \<open>i\<close>: \<^verbatim>\<open>s{i:05d}\<close> and
  \<^verbatim>\<open>s{i:05d}-{basename}.xhtml\<close>.\<close>

definition chapter_basename :: "string \<Rightarrow> string" where
  "chapter_basename md_filename = hd (py_split (CHR ''.'') md_filename)"

definition chapter_id :: "nat \<Rightarrow> string" where
  "chapter_id i = ''s'' @ format_05d i"

definition chapter_href :: "nat \<Rightarrow> string \<Rightarrow> string" where
  "chapter_href i md_filename = ''s'' @ format_05d i @ ''-'' @ chapter_basename md_filename @ ''.xhtml''"

text \<open>The transform "split into lines on the line feed and join them again with two line
  feeds", and the list of lines with an empty line between every two neighbours.\<close>

definition line_doubling :: "string \<Rightarrow> string" where
  "line_doubling s = py_join [CHR 0x0A, CHR 0x0A] (py_split (CHR 0x0A) s)"

fun blank_between :: "string list \<Rightarrow> string list" where
  "blank_between [] = []"
| "blank_between [l] = [l]"
| "blank_between (l # m # ls) = l # [] # blank_between (m # ls)"

text \<open>The name of an archive member together with its compression method.\<close>

definition member_entry :: "member \<Rightarrow> string \<times> compression" where
  "member_entry m = (arcname m, compress_type m)"

section \<open>Example inputs\<close>

text \<open>A description that names a cover image.\<close>

definition cover_example :: description where
  "cover_example = \<lparr>metadata = [(''dc:title'', ''T'')], default_css = [], chapters = [],
     cover_image = Some ''front.png''\<rparr>"

text \<open>A run in which the user accepts every default and declines every review, with
  an editor that cannot be started and a Markdown library that wraps its input in one
  paragraph.\<close>

definition one_paragraph :: "string \<Rightarrow> string" where
  "one_paragraph s = ''<p>'' @ s @ ''</p>''"

definition no_editor :: "string \<Rightarrow> string option option" where
  "no_editor md_path = None"

definition example_environment :: environment where
  "example_environment =
     \<lparr>typed_lines = [[], [], [], [], [], [], [], ''n'', ''n''],
      now_stamp = ''20260101120000'', now_date = ''2026-01-01'',
      xdg_open = no_editor, markdown_markdown = one_paragraph\<rparr>"

text \<open>A file system without the project directory, and one whose project directory
  holds no Markdown file.\<close>

definition no_file :: "string \<Rightarrow> string option" where
  "no_file name = None"

definition no_image :: "string \<Rightarrow> bool" where
  "no_image name = False"

definition missing_project :: world where
  "missing_project = \<lparr>project = None, can_create_output = True, epub_file = None\<rparr>"

definition empty_workdir :: workdir where
  "empty_workdir =
     \<lparr>dir_listing = [''notes.txt''], description_json = None, read_text = no_file,
      css_dir = no_file, images_listing = None, image_exists = no_image, image_bytes = no_file\<rparr>"

definition empty_project :: world where
  "empty_project = \<lparr>project = Some empty_workdir, can_create_output = True, epub_file = None\<rparr>"

text \<open>A project with two chapters, one of which refers to an image, two files in
  \<^verbatim>\<open>images/\<close> and no description yet.\<close>

definition example_text :: "string \<Rightarrow> string option" where
  "example_text name =
     (if name = ''a.md'' then Some ''Intro ![x](sub/pic.png)''
      else if name = ''b.c.md'' then Some ''Body'' else None)"

definition example_image_exists :: "string \<Rightarrow> bool" where
  "example_image_exists name = (name = ''pic.png'' \<or> name = ''cover.PNG'')"

definition example_image_bytes :: "string \<Rightarrow> string option" where
  "example_image_bytes name =
     (if name = ''pic.png'' \<or> name = ''cover.PNG'' then Some ''image bytes'' else None)"

definition example_workdir :: workdir where
  "example_workdir =
     \<lparr>dir_listing = [''b.c.md'', ''notes.txt'', ''a.md'', ''images''], description_json = None,
      read_text = example_text, css_dir = no_file,
      images_listing = Some [''pic.png'', ''cover.PNG''],
      image_exists = example_image_exists, image_bytes = example_image_bytes\<rparr>"


text \<open>The description that \<^verbatim>\<open>main\<close> writes for this project in the example run.\<close>

definition example_description :: description where
  "example_description =
     \<lparr>metadata = [(''dc:title'', ''Untitled Document''), (''dc:creator'', ''Unknown Author''),
                  (''dc:identifier'', ''id-20260101120000''), (''dc:language'', ''en''),
                  (''dc:rights'', ''All rights reserved''), (''dc:publisher'', ''PDF2EPUB''),
                  (''dc:date'', ''2026-01-01'')],
      default_css = [''stylesheet.css''],
      chapters = [\<lparr>markdown = ''a.md'', css = []\<rparr>, \<lparr>markdown = ''b.c.md'', css = []\<rparr>],
      cover_image = None\<rparr>"

text \<open>The entries of the two navigation documents, as functions of the target and the
  label, and the style sheet link of the navigation document.\<close>

definition TOC_entry :: "string \<Rightarrow> string \<Rightarrow> string" where
  \<open>TOC_entry href label = ''<li><a href="'' @ href @ ''">'' @ label @ ''</a></li>''\<close>

definition NCX_entry :: "nat \<Rightarrow> string \<Rightarrow> string \<Rightarrow> string" where
  \<open>NCX_entry i label src =
     ''<navPoint id="navpoint-'' @ decimal i @ ''">\<newline><navLabel>\<newline><text>'' @ label
       @ ''</text>\<newline></navLabel><content src="'' @ src @ ''"/>\<newline></navPoint>''\<close>

definition TOC_link :: "string \<Rightarrow> string" where
  \<open>TOC_link css_filename =
     ''<link rel="stylesheet" href="css/'' @ css_filename @ ''" type="text/css"/>\<newline>''\<close>

text \<open>Chapter texts for the example project, as \<^verbatim>\<open>chapter_data\<close> holds them.\<close>

definition example_chapter_data :: "string \<Rightarrow> string option" where
  "example_chapter_data md_filename = Some (chapter_shell md_filename [] ''<p>text</p>'')"







section \<open>Properties of the string operations\<close>

lemma py_split_not_Nil: "py_split c s \<noteq> []"
  by (induction s) auto

lemma py_split_no_sep: "c \<notin> set s \<Longrightarrow> py_split c s = [s]"
  by (induction s) auto

lemma tl_py_split_Nil: "tl (py_split c s) = [] \<longleftrightarrow> c \<notin> set s"
  by (induction s) (auto simp: py_split_not_Nil)

lemma last_py_split: "last (py_split c s) = after_last c s"
proof (induction s)
  case Nil
  show ?case by (simp add: after_last_def)
next
  case (Cons x xs)
  show ?case
  proof (cases "c \<in> set xs")
    case True
    then have "tl (py_split c xs) \<noteq> []" by (simp add: tl_py_split_Nil)
    with True Cons show ?thesis
      by (auto simp: after_last_def takeWhile_append py_split_not_Nil last_tl)
  next
    case False
    then show ?thesis
      by (auto simp: after_last_def takeWhile_append py_split_no_sep)
  qed
qed

section \<open>Structure of the package document\<close>

lemma foldl_appendChild:
  "foldl (\<lambda>m p. appendChild m (f p)) (Element t as cs) xs = Element t as (cs @ map f xs)"
  by (induction xs arbitrary: cs) auto

lemma chapter_items_loop_eq:
  "chapter_items_loop md_filenames (Element t as cs) =
     Element t as (cs @ map (\<lambda>p. chapter_item (fst p) (snd p)) (enumerate 0 md_filenames))"
  by (simp add: chapter_items_loop_def split_def foldl_appendChild)

lemma css_items_loop_eq:
  "css_items_loop css_filenames (Element t as cs) =
     Element t as (cs @ map (\<lambda>p. css_item (fst p) (snd p)) (enumerate 0 css_filenames))"
  by (simp add: css_items_loop_def split_def foldl_appendChild)

lemma spine_loop_eq:
  "spine_loop md_filenames (Element t as cs) =
     Element t as (cs @ map (\<lambda>p. chapter_itemref (fst p)) (enumerate 0 md_filenames))"
  by (simp add: spine_loop_def split_def foldl_appendChild)

lemma metadata_loop_eq:
  "metadata_loop items (Element t as cs) =
     Element t as (cs @ map (\<lambda>p. metadata_entry (fst p) (snd p)) (filter (\<lambda>p. snd p \<noteq> []) items))"
  unfolding metadata_loop_def
  by (induction items arbitrary: cs) (auto simp: case_prod_beta)

lemma image_items_fold:
  "foldl (\<lambda>(metadata, manifest) (i, image_filename).
              let x = image_item i image_filename
              in if Some image_filename = cover
                 then (appendChild metadata (cover_meta i),
                       appendChild manifest (setAttribute x ''properties'' ''cover-image''))
                 else (metadata, appendChild manifest x))
       (Element t as cs, Element t' as' cs') ps =
     (Element t as (cs @ map (\<lambda>p. cover_meta (fst p)) (filter (\<lambda>p. Some (snd p) = cover) ps)),
      Element t' as' (cs' @ map (manifest_image_item cover) ps))"
  by (induction ps arbitrary: cs cs') (auto simp: manifest_image_item_def Let_def)

lemma image_items_loop_eq:
  "image_items_loop image_filenames cover (Element t as cs, Element t' as' cs') =
     (Element t as (cs @ map (\<lambda>p. cover_meta (fst p))
                          (filter (\<lambda>p. Some (snd p) = cover) (enumerate 0 image_filenames))),
      Element t' as' (cs' @ map (manifest_image_item cover) (enumerate 0 image_filenames)))"
  unfolding image_items_loop_def by (rule image_items_fold)

lemma get_packageOPF_XML_eq:
  "get_packageOPF_XML md_filenames image_filenames css_filenames description_data =
     Element ''package''
       [(''xmlns'', ''http://www.idpf.org/2007/opf''), (''version'', ''3.0''),
        (''xml:lang'', ''en''), (''unique-identifier'', ''pub-id'')]
       [Element ''metadata'' [(''xmlns:dc'', ''http://purl.org/dc/elements/1.1/'')]
          (map (\<lambda>p. metadata_entry (fst p) (snd p))
             (filter (\<lambda>p. snd p \<noteq> []) (description.metadata description_data)) @
           map (\<lambda>p. cover_meta (fst p))
             (filter (\<lambda>p. Some (snd p) = cover_image description_data)
                (enumerate 0 image_filenames))),
        Element ''manifest'' []
          ([Element ''item'' [(''id'', ''toc''), (''properties'', ''nav''),
              (''href'', ''TOC.xhtml''), (''media-type'', ''application/xhtml+xml'')] [],
            Element ''item'' [(''id'', ''ncx''), (''href'', ''toc.ncx''),
              (''media-type'', ''application/x-dtbncx+xml'')] [],
            Element ''item'' [(''id'', ''titlepage''), (''href'', ''titlepage.xhtml''),
              (''media-type'', ''application/xhtml+xml'')] []] @
           map (\<lambda>p. chapter_item (fst p) (snd p)) (enumerate 0 md_filenames) @
           map (manifest_image_item (cover_image description_data)) (enumerate 0 image_filenames) @
           map (\<lambda>p. css_item (fst p) (snd p)) (enumerate 0 css_filenames)),
        Element ''spine'' [(''toc'', ''ncx'')]
          (Element ''itemref'' [(''idref'', ''titlepage''), (''linear'', ''yes'')] [] #
           map (\<lambda>p. chapter_itemref (fst p)) (enumerate 0 md_filenames)),
        Element ''guide'' []
          [Element ''reference'' [(''type'', ''cover''), (''title'', ''Cover image''),
             (''href'', ''titlepage.xhtml'')] []]]"
  unfolding get_packageOPF_XML_def
  by (simp add: createElement_def chapter_items_loop_eq css_items_loop_eq spine_loop_eq
      metadata_loop_eq image_items_loop_eq)

lemma getAttribute_Element [simp]: "getAttribute (Element t as cs) k = map_of as k"
  by (simp add: getAttribute_def)

section \<open>The available images\<close>

lemma after_last_spec:
  "c \<notin> set (after_last c s) \<and> (c \<notin> set s \<longrightarrow> after_last c s = s) \<and>
   (c \<in> set s \<longrightarrow> (\<exists>pre. s = pre @ c # after_last c s))"
proof (intro conjI impI)
  show "c \<notin> set (after_last c s)"
    unfolding after_last_def using set_takeWhileD [of c "\<lambda>x. x \<noteq> c" "rev s"] by auto
  show "after_last c s = s" if "c \<notin> set s"
  proof -
    from that have "takeWhile (\<lambda>x. x \<noteq> c) (rev s) = rev s" by auto
    then show ?thesis unfolding after_last_def by (simp only: rev_rev_ident)
  qed
  show "\<exists>pre. s = pre @ c # after_last c s" if "c \<in> set s"
  proof -
    from that have "dropWhile (\<lambda>x. x \<noteq> c) (rev s) \<noteq> []"
      by (simp add: dropWhile_eq_Nil_conv)
    then obtain ys where ys: "dropWhile (\<lambda>x. x \<noteq> c) (rev s) = c # ys"
      using hd_dropWhile [of "\<lambda>x. x \<noteq> c" "rev s"]
      by (cases "dropWhile (\<lambda>x. x \<noteq> c) (rev s)") auto
    have "rev s = takeWhile (\<lambda>x. x \<noteq> c) (rev s) @ c # ys"
      using takeWhile_dropWhile_id [of "\<lambda>x. x \<noteq> c" "rev s"] ys by simp
    then have "s = rev ys @ c # rev (takeWhile (\<lambda>x. x \<noteq> c) (rev s))"
      by (metis rev_append rev.simps(2) rev_rev_ident append.assoc append_Cons append_Nil)
    then show ?thesis unfolding after_last_def by blast
  qed
qed

text \<open>
  Claim C10. \<^verbatim>\<open>get_all_filenames\<close> keeps, in the order of the listing, exactly the names
  whose text after the last dot (the whole name when it has no dot) is one of the
  extensions, compared character by character. With the extensions of \<^verbatim>\<open>main\<close>,
  \<^verbatim>\<open>cover.PNG\<close> is left out and a file named \<^verbatim>\<open>png\<close> is kept.
\<close>

theorem available_images_by_extension:
  "get_all_filenames (Some all_files) extensions =
     filter (\<lambda>x. after_last (CHR ''.'') x \<in> set extensions) all_files \<and>
   (x \<in> set (get_all_filenames (Some all_files) extensions) \<longleftrightarrow>
      x \<in> set all_files \<and> after_last (CHR ''.'') x \<in> set extensions) \<and>
   get_all_filenames (Some [''cover.PNG'', ''png'', ''a.png'']) image_extensions = [''png'', ''a.png'']"
  by (simp add: get_all_filenames_def last_py_split image_extensions_def after_last_def)

section \<open>The identifier of the package\<close>

text \<open>
  Claim C8, evaluated for a description whose only metadata entry is the identifier: the
  \<^verbatim>\<open>unique-identifier\<close> attribute of the package element is \<^verbatim>\<open>pub-id\<close>, while the
  \<^verbatim>\<open>dc:identifier\<close> element carries the id \<^verbatim>\<open>book-id\<close>.
\<close>

theorem unique_identifier_and_identifier_id:
  "getAttribute (get_packageOPF_XML md_filenames image_filenames css_filenames
       \<lparr>metadata = [(''dc:identifier'', ''id-1'')], default_css = [], chapters = [],
        cover_image = None\<rparr>) ''unique-identifier'' = Some ''pub-id'' \<and>
   childNodes (opf_metadata (get_packageOPF_XML md_filenames image_filenames css_filenames
       \<lparr>metadata = [(''dc:identifier'', ''id-1'')], default_css = [], chapters = [],
        cover_image = None\<rparr>)) =
     [Element ''dc:identifier'' [(''id'', ''book-id'')] [TextNode ''id-1'']]"
  by (simp add: get_packageOPF_XML_eq opf_metadata_def metadata_entry_def createElement_def
      createTextNode_def)

section \<open>The manifest items of the images\<close>

lemma map_of_set_attr: "map_of (set_attr k v as) k' = (if k' = k then Some v else map_of as k')"
  by (induction as) auto

lemma image_item_Element:
  "\<exists>as. image_item i f = Element ''item'' as [] \<and> map_of as ''properties'' = None \<and>
     map_of as ''media-type'' =
       (if py_in ''gif'' f then Some ''image/gif''
        else if py_in ''jpg'' f \<or> py_in ''jpeg'' f then Some ''image/jpeg''
        else if py_in ''png'' f then Some ''image/png'' else None)"
  by (simp add: image_item_def createElement_def)

text \<open>
  Claim C3, evaluated for the image \<^verbatim>\<open>gift.png\<close>: it is an available image (its
  extension is \<^verbatim>\<open>png\<close>), and its manifest item, the fourth of the manifest, gets the
  media type \<^verbatim>\<open>image/gif\<close>, because the name contains \<^verbatim>\<open>gif\<close>.
\<close>

theorem media_type_by_substring:
  "get_all_filenames (Some [''gift.png'']) image_extensions = [''gift.png''] \<and>
   getAttribute
     (childNodes (opf_manifest (get_packageOPF_XML [] [''gift.png''] [] description_data)) ! 3)
     ''media-type'' = Some ''image/gif''"
proof -
  obtain as where as: "image_item 0 ''gift.png'' = Element ''item'' as []"
      "map_of as ''media-type'' = Some ''image/gif''"
    using image_item_Element [of 0 "''gift.png''"] by auto
  then show ?thesis
    by (simp add: get_all_filenames_def image_extensions_def get_packageOPF_XML_eq opf_manifest_def
        manifest_image_item_def map_of_set_attr)
qed

section \<open>The cover image\<close>

lemma chapter_item_Element:
  "chapter_item i f = Element ''item''
     [(''id'', ''s'' @ format_05d i),
      (''href'', ''s'' @ format_05d i @ ''-'' @ hd (py_split (CHR ''.'') f) @ ''.xhtml''),
      (''media-type'', ''application/xhtml+xml'')] []"
  by (simp add: chapter_item_def createElement_def)

lemma css_item_Element:
  "css_item i f = Element ''item''
     [(''id'', ''css-'' @ format_05d i), (''href'', ''css/'' @ f), (''media-type'', ''text/css'')] []"
  by (simp add: css_item_def createElement_def)

lemma chapter_itemref_Element:
  "chapter_itemref i = Element ''itemref'' [(''idref'', ''s'' @ format_05d i), (''linear'', ''yes'')] []"
  by (simp add: chapter_itemref_def createElement_def)

lemma metadata_entry_name:
  "tagName (metadata_entry k v) = k \<and> getAttribute (metadata_entry k v) ''name'' = None"
  by (auto simp: metadata_entry_def createElement_def createTextNode_def Let_def)

lemma image_item_no_properties: "getAttribute (image_item i f) ''properties'' = None"
  using image_item_Element [of i f] by auto

text \<open>
  Claim C4. When the cover image of the description is not among the image file names
  passed to \<^verbatim>\<open>get_packageOPF_XML\<close>, no item of the manifest has the attribute
  \<^verbatim>\<open>properties="cover-image"\<close> and the metadata block has no \<^verbatim>\<open>meta\<close> element with
  \<^verbatim>\<open>name="cover"\<close>.
\<close>

theorem no_cover_without_image:
  assumes "cover_image description_data = Some c" and "c \<notin> set image_filenames"
  shows "(\<forall>x \<in> set (childNodes (opf_manifest
              (get_packageOPF_XML md_filenames image_filenames css_filenames description_data))).
            getAttribute x ''properties'' \<noteq> Some ''cover-image'') \<and>
         (\<forall>y \<in> set (childNodes (opf_metadata
              (get_packageOPF_XML md_filenames image_filenames css_filenames description_data))).
            \<not> (tagName y = ''meta'' \<and> getAttribute y ''name'' = Some ''cover''))"
proof -
  have other: "Some (snd p) \<noteq> cover_image description_data"
    if "p \<in> set (enumerate 0 image_filenames)" for p
  proof -
    from that have "fst p < length image_filenames" and "image_filenames ! fst p = snd p"
      by (simp_all add: in_set_enumerate_eq)
    then have "snd p \<in> set image_filenames" by (metis nth_mem)
    with assms show ?thesis by auto
  qed
  then have no_meta: "filter (\<lambda>p. Some (snd p) = cover_image description_data)
      (enumerate 0 image_filenames) = []"
    by (simp add: filter_empty_conv)
  have manifest: "getAttribute x ''properties'' \<noteq> Some ''cover-image''"
    if "x \<in> set (childNodes (opf_manifest
          (get_packageOPF_XML md_filenames image_filenames css_filenames description_data)))" for x
    using that other
    by (auto simp: get_packageOPF_XML_eq opf_manifest_def chapter_item_Element css_item_Element
        manifest_image_item_def image_item_no_properties)
  have metadata: "\<not> (tagName y = ''meta'' \<and> getAttribute y ''name'' = Some ''cover'')"
    if "y \<in> set (childNodes (opf_metadata
          (get_packageOPF_XML md_filenames image_filenames css_filenames description_data)))" for y
    using that no_meta
    by (auto simp: get_packageOPF_XML_eq opf_metadata_def metadata_entry_name)
  from manifest metadata show ?thesis by blast
qed

theorem no_cover_without_image_witness:
  "cover_image cover_example = Some ''front.png'' \<and> ''front.png'' \<notin> set [''a.png''] \<and>
   list_all (\<lambda>x. getAttribute x ''properties'' \<noteq> Some ''cover-image'')
     (childNodes (opf_manifest (get_packageOPF_XML [''c.md''] [''a.png''] [] cover_example))) \<and>
   list_all (\<lambda>y. \<not> (tagName y = ''meta'' \<and> getAttribute y ''name'' = Some ''cover''))
     (childNodes (opf_metadata (get_packageOPF_XML [''c.md''] [''a.png''] [] cover_example)))"
proof -
  have c: "cover_image cover_example = Some ''front.png''" by (simp add: cover_example_def)
  have n: "''front.png'' \<notin> set [''a.png'']" by simp
  show ?thesis
    using c n no_cover_without_image [OF c n, of "[''c.md'']" "[]"]
    unfolding list_all_iff by blast
qed

section \<open>The two fatal cases\<close>

text \<open>
  Claim C9. When the project directory does not exist, or holds no file whose name ends
  in \<^verbatim>\<open>.md\<close>, \<^verbatim>\<open>convert_to_epub\<close> raises (\<^verbatim>\<open>FileNotFoundError\<close> and
  \<^verbatim>\<open>ValueError\<close>) and leaves the file system as it was: no archive has been created
  and nothing has been written.
\<close>

theorem fatal_before_archive:
  assumes "project w = None \<or>
           (\<exists>wd. project w = Some wd \<and> filter (suffix ''.md'') (dir_listing wd) = [])"
  shows "convert_to_epub env w =
           (Raised (if project w = None then FileNotFoundError else ValueError), w)"
  using assms by (auto simp: convert_to_epub_def)

theorem fatal_before_archive_witness:
  "convert_to_epub example_environment missing_project = (Raised FileNotFoundError, missing_project) \<and>
   convert_to_epub example_environment empty_project = (Raised ValueError, empty_project) \<and>
   epub_file missing_project = None \<and> epub_file empty_project = None"
proof -
  have m: "project missing_project = None \<or>
      (\<exists>wd. project missing_project = Some wd \<and> filter (suffix ''.md'') (dir_listing wd) = [])"
    by (simp add: missing_project_def)
  have e: "project empty_project = None \<or>
      (\<exists>wd. project empty_project = Some wd \<and> filter (suffix ''.md'') (dir_listing wd) = [])"
    by (simp add: empty_project_def empty_workdir_def suffix_to_prefix)
  show ?thesis
    using fatal_before_archive [OF m, of example_environment]
      fatal_before_archive [OF e, of example_environment]
    by (simp add: missing_project_def empty_project_def)
qed

section \<open>Preprocessing of a chapter\<close>

lemma py_split_append_sep: "c \<notin> set a \<Longrightarrow> py_split c (a @ c # b) = a # py_split c b"
  by (induction a) auto

lemma py_split_parts: "p \<in> set (py_split c s) \<Longrightarrow> c \<notin> set p"
proof (induction s arbitrary: p)
  case Nil
  then show ?case by simp
next
  case (Cons x xs)
  show ?case
  proof (cases "x = c")
    case True
    with Cons show ?thesis by auto
  next
    case False
    obtain r rs where r: "py_split c xs = r # rs"
      using py_split_not_Nil [of c xs] by (cases "py_split c xs") auto
    with False Cons.prems have "p = x # r \<or> p \<in> set rs" by simp
    then show ?thesis
    proof
      assume "p = x # r"
      with False Cons.IH [of r] r show ?thesis by simp
    next
      assume "p \<in> set rs"
      with Cons.IH [of p] r show ?thesis by simp
    qed
  qed
qed

lemma py_split_py_join_doubled:
  "ps \<noteq> [] \<Longrightarrow> (\<And>p. p \<in> set ps \<Longrightarrow> c \<notin> set p) \<Longrightarrow>
     py_split c (py_join [c, c] ps) = blank_between ps"
proof (induction ps rule: blank_between.induct)
  case 1
  then show ?case by simp
next
  case (2 l)
  then show ?case by (simp add: py_split_no_sep)
next
  case (3 l m ls)
  have "py_split c (py_join [c, c] (m # ls)) = blank_between (m # ls)"
    using 3 by simp
  moreover have "c \<notin> set l" using 3 by simp
  ultimately show ?case
    using py_split_append_sep [of c l "c # py_join [c, c] (m # ls)"] by simp
qed

text \<open>
  Claim C5, amended. The preprocessing step first strips the white space at both ends of
  the input; the text it produces is the stripped text split into lines on the line feed
  and joined again with two line feeds, so that its lines are those of the stripped text
  with an empty line between every two neighbours. \<^verbatim>\<open>get_chapter_XML\<close> rewrites the
  image references in that text and hands the result to the Markdown library.
\<close>

theorem preprocessing_strips_then_doubles:
  "corrected_markdown markdown_data = line_doubling (py_strip markdown_data) \<and>
   py_split (CHR 0x0A) (corrected_markdown markdown_data) =
     blank_between (py_split (CHR 0x0A) (py_strip markdown_data)) \<and>
   get_chapter_XML to_html present md_filename css_filenames markdown_data =
     (chapter_shell md_filename css_filenames
        (to_html (fst (process_markdown_for_images present (corrected_markdown markdown_data)))),
      snd (process_markdown_for_images present (corrected_markdown markdown_data)))"
proof -
  have "py_split (CHR 0x0A) (corrected_markdown markdown_data) =
      blank_between (py_split (CHR 0x0A) (py_strip markdown_data))"
    unfolding corrected_markdown_def Let_def
    by (rule py_split_py_join_doubled) (auto simp: py_split_not_Nil dest: py_split_parts)
  then show ?thesis
    by (simp add: corrected_markdown_def line_doubling_def get_chapter_XML_def split_def Let_def)
qed

theorem preprocessing_strips_then_doubles_witness:
  "corrected_markdown '' a\<newline>b \<newline>'' = ''a\<newline>\<newline>b'' \<and>
   py_split (CHR 0x0A) (corrected_markdown '' a\<newline>b \<newline>'') = [''a'', [], ''b'']"
  using preprocessing_strips_then_doubles [of "'' a\<newline>b \<newline>''"]
  by (simp add: line_doubling_def py_strip_def is_space_def)

text \<open>The claim as stated fails for a text that ends in a line feed: the code yields
  \<^verbatim>\<open>a\<close> where splitting and joining the input itself yields \<^verbatim>\<open>a\<close> followed by two
  line feeds.\<close>

theorem preprocessing_not_plain_doubling:
  "corrected_markdown ''a\<newline>'' \<noteq> line_doubling ''a\<newline>''"
  by (simp add: corrected_markdown_def line_doubling_def py_strip_def is_space_def)

section \<open>Image references\<close>

lemma finditer_no_bang: "CHR ''!'' \<notin> set s \<Longrightarrow> finditer s = []"
  by (induction s) (auto simp: match_image_def)

lemma no_image_syntax_unchanged:
  "CHR ''!'' \<notin> set markdown_text \<Longrightarrow>
     process_markdown_for_images present markdown_text = (markdown_text, [])"
  by (simp add: process_markdown_for_images_def finditer_no_bang)

lemma images_found_fold:
  "snd (foldl (\<lambda>(modified_text, images_found) (match_group0, alt_text, image_path).
              let image_path = py_strip image_path;
                  name = path_name image_path
              in if present name
                 then (py_replace match_group0
                         (''!['' @ alt_text @ '']('' @ ''images/'' @ name @ '')'') modified_text,
                       images_found @ [name])
                 else (modified_text, images_found))
         (t, found) ms) =
   found @ filter present (map (\<lambda>(g, a, p). path_name (py_strip p)) ms)"
  by (induction ms arbitrary: t found) (auto simp: Let_def)

lemma images_found_eq:
  "snd (process_markdown_for_images present markdown_text) =
     filter present (map (\<lambda>(g, a, p). path_name (py_strip p)) (finditer markdown_text))"
  unfolding process_markdown_for_images_def by (subst images_found_fold) simp

lemma spec_example_rewritten:
  "present ''pic.png'' \<Longrightarrow>
     process_markdown_for_images present ''![x](sub/dir/pic.png)'' =
       (''![x](images/pic.png)'', [''pic.png''])"
  by (simp add: process_markdown_for_images_def match_image_def group0_def py_strip_def
      is_space_def path_name_def)

lemma no_match_unchanged:
  "finditer markdown_text = [] \<Longrightarrow>
     process_markdown_for_images present markdown_text = (markdown_text, [])"
  by (simp add: process_markdown_for_images_def)

lemma match_path_exact:
  "CHR '')'' \<notin> set p \<Longrightarrow> CHR 0x0A \<notin> set p \<Longrightarrow> match_path (p @ CHR '')'' # r) = Some p"
  by (induction p) auto

lemma match_alt_exact:
  assumes "CHR '']'' \<notin> set a" and "CHR 0x0A \<notin> set a"
    and "CHR '')'' \<notin> set p" and "CHR 0x0A \<notin> set p"
  shows "match_alt (a @ '']('' @ p @ CHR '')'' # r) = Some (a, p)"
  using assms(1,2)
proof (induction a)
  case Nil
  show ?case using assms(3,4) by (simp add: match_path_exact)
next
  case (Cons c a)
  then show ?case by auto
qed

lemma match_image_exact:
  assumes "CHR '']'' \<notin> set a" and "CHR 0x0A \<notin> set a"
    and "CHR '')'' \<notin> set p" and "CHR 0x0A \<notin> set p"
  shows "match_image (group0 a p @ r) = Some (a, p)"
  using match_alt_exact [OF assms, of r] by (simp add: match_image_def group0_def)

lemma finditer_skip: "CHR ''!'' \<notin> set pre \<Longrightarrow> finditer (pre @ s) = finditer s"
  by (induction pre) (auto simp: match_image_def)

lemma finditer_single:
  assumes "CHR ''!'' \<notin> set pre" and "CHR ''!'' \<notin> set post"
    and "CHR '']'' \<notin> set a" and "CHR 0x0A \<notin> set a"
    and "CHR '')'' \<notin> set p" and "CHR 0x0A \<notin> set p"
  shows "finditer (pre @ group0 a p @ post) = [(group0 a p, a, p)]"
proof -
  obtain cs where g: "group0 a p @ post = CHR ''!'' # cs" by (simp add: group0_def)
  have "finditer (group0 a p @ post) =
      (group0 a p, a, p) # finditer (drop (length (group0 a p)) (group0 a p @ post))"
    using match_image_exact [OF assms(3-6), of post] unfolding g by simp
  then show ?thesis
    using assms(1,2) by (simp add: finditer_skip finditer_no_bang)
qed

lemma py_replace_skip:
  "old \<noteq> [] \<Longrightarrow> hd old \<notin> set pre \<Longrightarrow> py_replace old new (pre @ s) = pre @ py_replace old new s"
proof (induction pre)
  case Nil
  show ?case by simp
next
  case (Cons c pre)
  then have "\<not> prefix old (c # pre @ s)" by (cases old) auto
  with Cons show ?case by simp
qed

lemma py_replace_here: "old \<noteq> [] \<Longrightarrow> py_replace old new (old @ s) = new @ py_replace old new s"
  by (cases old) simp_all

lemma py_replace_none: "old \<noteq> [] \<Longrightarrow> hd old \<notin> set s \<Longrightarrow> py_replace old new s = s"
  using py_replace_skip [of old s new "[]"] by simp

text \<open>
  A text that holds one image reference, with no exclamation mark before or after it, an
  alternative text without closing bracket and a path without closing parenthesis, both
  on one line: the reference is rewritten and its file name recorded when the file is in
  the images directory, and the text is returned as it is otherwise.
\<close>

lemma single_reference_rewritten:
  assumes "CHR ''!'' \<notin> set pre" and "CHR ''!'' \<notin> set post"
    and "CHR '']'' \<notin> set a" and "CHR 0x0A \<notin> set a"
    and "CHR '')'' \<notin> set p" and "CHR 0x0A \<notin> set p"
  shows "process_markdown_for_images present (pre @ group0 a p @ post) =
     (if present (path_name (py_strip p))
      then (pre @ group0 a (''images/'' @ path_name (py_strip p)) @ post, [path_name (py_strip p)])
      else (pre @ group0 a p @ post, []))"
proof -
  have g: "group0 a p \<noteq> []" "hd (group0 a p) = CHR ''!''" by (simp_all add: group0_def)
  have "py_replace (group0 a p) new (pre @ group0 a p @ post) = pre @ new @ post" for new
    using g assms(1,2) by (simp add: py_replace_skip py_replace_here py_replace_none)
  then show ?thesis
    unfolding process_markdown_for_images_def finditer_single [OF assms]
    by (simp add: Let_def group0_def)
qed

text \<open>
  Claim C6, evaluated for a text with two image references, where only the file
  \<^verbatim>\<open>q\<close> is in the images directory. The second reference, whose file
  \<^verbatim>\<open>p![a](q\<close> is missing, ends with the text of the first one; replacing every
  occurrence of the first reference changes the second one too.
\<close>

theorem missing_reference_rewritten:
  "finditer ''![a](q) ![b](p![a](q)'' =
     [(''![a](q)'', ''a'', ''q''), (''![b](p![a](q)'', ''b'', ''p![a](q'')] \<and>
   process_markdown_for_images ((=) ''q'') ''![a](q) ![b](p![a](q)'' =
     (''![a](images/q) ![b](p![a](images/q)'', [''q''])"
  by code_simp

section \<open>The members of the archive\<close>

lemma write_chapters_members:
  "write_chapters chapter_data ps epub = (None, epub') \<Longrightarrow>
     map member_entry epub' =
       map member_entry epub @
       map (\<lambda>p. (''OPS/s'' @ format_05d (fst p) @ ''-'' @ hd (py_split (CHR ''.'') (snd p)) @ ''.xhtml'',
                 ZIP_DEFLATED)) ps"
proof (induction ps arbitrary: epub)
  case Nil
  then show ?case by simp
next
  case (Cons p ps)
  obtain i f where p: "p = (i, f)" by (cases p)
  show ?case
  proof (cases "chapter_data f")
    case None
    with Cons.prems p show ?thesis by simp
  next
    case (Some xhtml)
    with Cons.prems p Cons.IH [of "writestr epub
        (''OPS/s'' @ format_05d i @ ''-'' @ hd (py_split (CHR ''.'') f) @ ''.xhtml'')
        (Utf8 xhtml) ZIP_DEFLATED"]
    show ?thesis by (simp add: writestr_def member_entry_def)
  qed
qed

lemma write_images_members:
  "write_images bytes names epub = (None, epub') \<Longrightarrow>
     map member_entry epub' =
       map member_entry epub @ map (\<lambda>n. (''OPS/images/'' @ n, ZIP_DEFLATED)) names"
proof (induction names arbitrary: epub)
  case Nil
  then show ?case by simp
next
  case (Cons n names)
  show ?case
  proof (cases "bytes n")
    case None
    with Cons.prems show ?thesis by simp
  next
    case (Some b)
    with Cons.prems Cons.IH [of "writestr epub (''OPS/images/'' @ n) (Raw b) ZIP_DEFLATED"]
    show ?thesis by (simp add: writestr_def member_entry_def)
  qed
qed

lemma write_css_members:
  "map member_entry (write_css sheets names epub) =
     map member_entry epub @
     map (\<lambda>n. (''OPS/css/'' @ n, ZIP_DEFLATED)) (filter (\<lambda>n. sheets n \<noteq> None) names)"
  unfolding write_css_def
  by (induction names arbitrary: epub) (auto simp: writestr_def member_entry_def)

lemma write_css_first: "epub \<noteq> [] \<Longrightarrow> hd (write_css sheets names epub) = hd epub"
  unfolding write_css_def
  by (induction names arbitrary: epub) (auto simp: writestr_def split: option.splits)

lemma write_chapters_first:
  "epub \<noteq> [] \<Longrightarrow> snd (write_chapters chapter_data ps epub) \<noteq> [] \<and>
     hd (snd (write_chapters chapter_data ps epub)) = hd epub"
  by (induction chapter_data ps epub rule: write_chapters.induct)
     (auto simp: writestr_def split: option.splits)

lemma write_images_first:
  "epub \<noteq> [] \<Longrightarrow> snd (write_images bytes names epub) \<noteq> [] \<and>
     hd (snd (write_images bytes names epub)) = hd epub"
  by (induction bytes names epub rule: write_images.induct)
     (auto simp: writestr_def split: option.splits)

lemma write_epub_members:
  assumes "write_epub wd json_data all_md_filenames all_css_filenames chapter_data title authors
             = (None, epub)"
  shows "map member_entry epub =
     [(''mimetype'', ZIP_STORED), (''META-INF/container.xml'', ZIP_DEFLATED),
      (''OPS/package.opf'', ZIP_DEFLATED), (''OPS/titlepage.xhtml'', ZIP_DEFLATED)] @
     map (\<lambda>p. (''OPS/s'' @ format_05d (fst p) @ ''-'' @ hd (py_split (CHR ''.'') (snd p)) @ ''.xhtml'',
               ZIP_DEFLATED)) (enumerate 0 all_md_filenames) @
     map (\<lambda>n. (''OPS/images/'' @ n, ZIP_DEFLATED))
       (get_all_filenames (images_listing wd) image_extensions) @
     [(''OPS/TOC.xhtml'', ZIP_DEFLATED), (''OPS/toc.ncx'', ZIP_DEFLATED)] @
     map (\<lambda>n. (''OPS/css/'' @ n, ZIP_DEFLATED))
       (filter (\<lambda>n. css_dir wd n \<noteq> None) all_css_filenames)"
    and "payload (hd epub) = Utf8 ''application/epub+zip''"
proof -
  define e4 where "e4 =
    [\<lparr>arcname = ''mimetype'', payload = Utf8 ''application/epub+zip'', compress_type = ZIP_STORED\<rparr>,
     \<lparr>arcname = ''META-INF/container.xml'', payload = Utf8 get_container_XML,
      compress_type = ZIP_DEFLATED\<rparr>,
     \<lparr>arcname = ''OPS/package.opf'',
      payload = Utf8_pretty (get_packageOPF_XML all_md_filenames
                  (get_all_filenames (images_listing wd) image_extensions)
                  all_css_filenames json_data),
      compress_type = ZIP_DEFLATED\<rparr>,
     \<lparr>arcname = ''OPS/titlepage.xhtml'', payload = Utf8 (get_coverpage_XML title authors),
      compress_type = ZIP_DEFLATED\<rparr>]"
  obtain r1 e5 where c: "write_chapters chapter_data (enumerate 0 all_md_filenames) e4 = (r1, e5)"
    by (cases "write_chapters chapter_data (enumerate 0 all_md_filenames) e4")
  obtain r2 e6 where i: "write_images (image_bytes wd)
      (get_all_filenames (images_listing wd) image_extensions) e5 = (r2, e6)"
    by (cases "write_images (image_bytes wd)
      (get_all_filenames (images_listing wd) image_extensions) e5")
  from assms c i have r1: "r1 = None" and r2: "r2 = None"
    and epub: "epub = write_css (css_dir wd) all_css_filenames
      (e6 @ [\<lparr>arcname = ''OPS/TOC.xhtml'',
               payload = Utf8 (get_TOC_XML all_css_filenames all_md_filenames),
               compress_type = ZIP_DEFLATED\<rparr>,
             \<lparr>arcname = ''OPS/toc.ncx'', payload = Utf8 (get_TOCNCX_XML all_md_filenames),
               compress_type = ZIP_DEFLATED\<rparr>])"
    by (auto simp: write_epub_def writestr_def e4_def Let_def split: option.splits)
  have m5: "map member_entry e5 = map member_entry e4 @
      map (\<lambda>p. (''OPS/s'' @ format_05d (fst p) @ ''-'' @ hd (py_split (CHR ''.'') (snd p)) @ ''.xhtml'',
               ZIP_DEFLATED)) (enumerate 0 all_md_filenames)"
    using c r1 by (simp add: write_chapters_members)
  have m6: "map member_entry e6 = map member_entry e5 @
      map (\<lambda>n. (''OPS/images/'' @ n, ZIP_DEFLATED))
        (get_all_filenames (images_listing wd) image_extensions)"
    using i r2 by (simp add: write_images_members)
  show "map member_entry epub =
     [(''mimetype'', ZIP_STORED), (''META-INF/container.xml'', ZIP_DEFLATED),
      (''OPS/package.opf'', ZIP_DEFLATED), (''OPS/titlepage.xhtml'', ZIP_DEFLATED)] @
     map (\<lambda>p. (''OPS/s'' @ format_05d (fst p) @ ''-'' @ hd (py_split (CHR ''.'') (snd p)) @ ''.xhtml'',
               ZIP_DEFLATED)) (enumerate 0 all_md_filenames) @
     map (\<lambda>n. (''OPS/images/'' @ n, ZIP_DEFLATED))
       (get_all_filenames (images_listing wd) image_extensions) @
     [(''OPS/TOC.xhtml'', ZIP_DEFLATED), (''OPS/toc.ncx'', ZIP_DEFLATED)] @
     map (\<lambda>n. (''OPS/css/'' @ n, ZIP_DEFLATED))
       (filter (\<lambda>n. css_dir wd n \<noteq> None) all_css_filenames)"
    unfolding epub write_css_members
    by (simp add: m6 m5) (simp add: e4_def member_entry_def)
  have "e4 \<noteq> []" by (simp add: e4_def)
  then have "e5 \<noteq> [] \<and> hd e5 = hd e4"
    using write_chapters_first [of e4 chapter_data "enumerate 0 all_md_filenames"] c by simp
  then have "e6 \<noteq> [] \<and> hd e6 = hd e4"
    using write_images_first [of e5 "image_bytes wd"
        "get_all_filenames (images_listing wd) image_extensions"] i by simp
  then have "hd epub = hd e4"
    unfolding epub by (subst write_css_first) auto
  then show "payload (hd epub) = Utf8 ''application/epub+zip''"
    by (simp add: e4_def)
qed






lemma example_images:
  "get_all_filenames (Some [''pic.png'', ''cover.PNG'']) image_extensions = [''pic.png'']"
  by code_simp

lemma format_05d_example:
  "format_05d 0 = ''00000''" "format_05d (Suc 0) = ''00001''" "format_05d 1 = ''00001''"
  by code_simp+





section \<open>The numbering of the chapters\<close>

lemma foldl_append_concat: "foldl (\<lambda>s x. s @ f x) s0 xs = s0 @ concat (map f xs)"
  by (induction xs arbitrary: s0) auto

lemma map_enumerate_nth:
  "map f (enumerate 0 xs) = map (\<lambda>j. f (j, xs ! j)) [0..<length xs]"
  by (rule nth_equalityI) (simp_all add: nth_enumerate_eq)

lemma get_TOC_XML_eq:
  "get_TOC_XML default_css_filenames markdown_filenames =
     TOC_head @ concat (map TOC_link default_css_filenames) @ TOC_body @
     concat (map (\<lambda>j. TOC_entry (chapter_href j (markdown_filenames ! j))
                         (chapter_basename (markdown_filenames ! j)))
               [0..<length markdown_filenames]) @
     TOC_tail"
proof -
  have "get_TOC_XML default_css_filenames markdown_filenames =
     TOC_head @ concat (map TOC_link default_css_filenames) @ TOC_body @
     concat (map (\<lambda>p. TOC_entry (chapter_href (fst p) (snd p)) (chapter_basename (snd p)))
               (enumerate 0 markdown_filenames)) @
     TOC_tail"
    unfolding get_TOC_XML_def Let_def split_def foldl_append_concat
    by (simp add: TOC_link_def [abs_def] TOC_entry_def chapter_href_def chapter_basename_def)
  then show ?thesis by (simp add: map_enumerate_nth)
qed

lemma get_TOCNCX_XML_eq:
  "get_TOCNCX_XML markdown_filenames =
     NCX_head @
     concat (map (\<lambda>j. NCX_entry j (chapter_basename (markdown_filenames ! j))
                         (chapter_href j (markdown_filenames ! j)))
               [0..<length markdown_filenames]) @
     NCX_tail"
proof -
  have "get_TOCNCX_XML markdown_filenames =
     NCX_head @
     concat (map (\<lambda>p. NCX_entry (fst p) (chapter_basename (snd p)) (chapter_href (fst p) (snd p)))
               (enumerate 0 markdown_filenames)) @
     NCX_tail"
    unfolding get_TOCNCX_XML_def Let_def split_def foldl_append_concat
    by (simp add: NCX_entry_def chapter_href_def chapter_basename_def)
  then show ?thesis by (simp add: map_enumerate_nth)
qed

lemma archive_chapter_name:
  assumes "write_epub wd json_data md_filenames css_filenames chapter_data title authors
             = (None, epub)"
    and "i < length md_filenames"
  shows "arcname (epub ! (4 + i)) = ''OPS/'' @ chapter_href i (md_filenames ! i)"
proof -
  let ?names = "map (\<lambda>p. (''OPS/s'' @ format_05d (fst p) @ ''-'' @ hd (py_split (CHR ''.'') (snd p))
      @ ''.xhtml'', ZIP_DEFLATED)) (enumerate 0 md_filenames)"
  from write_epub_members(1) [OF assms(1)] obtain rest where
    m: "map member_entry epub =
       [(''mimetype'', ZIP_STORED), (''META-INF/container.xml'', ZIP_DEFLATED),
        (''OPS/package.opf'', ZIP_DEFLATED), (''OPS/titlepage.xhtml'', ZIP_DEFLATED)] @
       ?names @ rest"
    by blast
  then have "length (map member_entry epub) = 4 + length md_filenames + length rest"
    by simp
  with assms(2) have l: "4 + i < length epub" by simp
  then have "member_entry (epub ! (4 + i)) = map member_entry epub ! (4 + i)" by simp
  also have "\<dots> = ?names ! i"
    unfolding m using assms(2) by (simp add: nth_append)
  also have "\<dots> = (''OPS/'' @ chapter_href i (md_filenames ! i), ZIP_DEFLATED)"
    using assms(2) by (simp add: nth_enumerate_eq chapter_href_def chapter_basename_def)
  finally show ?thesis by (simp add: member_entry_def)
qed

text \<open>
  Claim C1. For a chapter list and an index \<open>i\<close> below its length: the manifest item of
  chapter \<open>i\<close> (the items of the chapters follow the three fixed items) has the id
  \<^verbatim>\<open>s{i:05d}\<close> and the href \<^verbatim>\<open>s{i:05d}-{basename}.xhtml\<close>; the spine reference of
  chapter \<open>i\<close> (after the title page) has that id as idref; the navigation document and
  the legacy navigation consist of their fixed blocks and, for every index in order, one
  entry whose target is that href; and the member of a completed archive for chapter
  \<open>i\<close> (after the four fixed members) is named \<^verbatim>\<open>OPS/\<close> followed by that href.
\<close>

theorem chapter_numbering_agrees:
  assumes "i < length md_filenames"
  shows
    "getAttribute (childNodes (opf_manifest
        (get_packageOPF_XML md_filenames image_filenames css_filenames description_data)) ! (3 + i))
       ''id'' = Some (chapter_id i) \<and>
     getAttribute (childNodes (opf_manifest
        (get_packageOPF_XML md_filenames image_filenames css_filenames description_data)) ! (3 + i))
       ''href'' = Some (chapter_href i (md_filenames ! i)) \<and>
     getAttribute (childNodes (opf_spine
        (get_packageOPF_XML md_filenames image_filenames css_filenames description_data)) ! (1 + i))
       ''idref'' = Some (chapter_id i) \<and>
     get_TOC_XML css_filenames md_filenames =
       TOC_head @ concat (map TOC_link css_filenames) @ TOC_body @
       concat (map (\<lambda>j. TOC_entry (chapter_href j (md_filenames ! j))
                           (chapter_basename (md_filenames ! j)))
                 [0..<length md_filenames]) @
       TOC_tail \<and>
     get_TOCNCX_XML md_filenames =
       NCX_head @
       concat (map (\<lambda>j. NCX_entry j (chapter_basename (md_filenames ! j))
                           (chapter_href j (md_filenames ! j)))
                 [0..<length md_filenames]) @
       NCX_tail \<and>
     (write_epub wd description_data md_filenames css_filenames chapter_data title authors
        = (None, epub) \<longrightarrow>
      arcname (epub ! (4 + i)) = ''OPS/'' @ chapter_href i (md_filenames ! i))"
proof -
  have manifest: "childNodes (opf_manifest
        (get_packageOPF_XML md_filenames image_filenames css_filenames description_data)) ! (3 + i)
      = chapter_item i (md_filenames ! i)"
    using assms
    by (simp add: get_packageOPF_XML_eq opf_manifest_def nth_append nth_enumerate_eq)
  have spine: "childNodes (opf_spine
        (get_packageOPF_XML md_filenames image_filenames css_filenames description_data)) ! (1 + i)
      = chapter_itemref i"
    using assms
    by (simp add: get_packageOPF_XML_eq opf_spine_def nth_enumerate_eq)
  show ?thesis
    unfolding manifest spine
    using assms archive_chapter_name [of wd description_data md_filenames css_filenames
        chapter_data title authors epub i]
    by (simp add: chapter_item_Element chapter_itemref_Element chapter_id_def chapter_href_def
        chapter_basename_def get_TOC_XML_eq get_TOCNCX_XML_eq)
qed

lemma example_archive:
  "fst (write_epub example_workdir example_description [''a.md'', ''b.c.md''] [''stylesheet.css'']
          example_chapter_data ''T'' ''A'') = None"
  by (simp add: write_epub_def Let_def writestr_def example_workdir_def example_images
      example_image_bytes_def example_chapter_data_def enumerate_eq_zip)

theorem chapter_numbering_agrees_witness:
  "getAttribute (childNodes (opf_manifest
      (get_packageOPF_XML [''a.md'', ''b.c.md''] [''pic.png''] [''stylesheet.css''] example_description)) ! 4)
     ''href'' = Some ''s00001-b.xhtml'' \<and>
   getAttribute (childNodes (opf_spine
      (get_packageOPF_XML [''a.md'', ''b.c.md''] [''pic.png''] [''stylesheet.css''] example_description)) ! 2)
     ''idref'' = Some ''s00001'' \<and>
   get_TOC_XML [] [''a.md'', ''b.c.md''] =
     TOC_head @ TOC_body @ TOC_entry ''s00000-a.xhtml'' ''a'' @ TOC_entry ''s00001-b.xhtml'' ''b''
       @ TOC_tail \<and>
   get_TOCNCX_XML [''a.md'', ''b.c.md''] =
     NCX_head @ NCX_entry 0 ''a'' ''s00000-a.xhtml'' @ NCX_entry 1 ''b'' ''s00001-b.xhtml''
       @ NCX_tail \<and>
   arcname (snd (write_epub example_workdir example_description [''a.md'', ''b.c.md'']
                   [''stylesheet.css''] example_chapter_data ''T'' ''A'') ! 5) =
     ''OPS/s00001-b.xhtml''"
proof -
  have i: "(1::nat) < length [''a.md'', ''b.c.md'']" by simp
  have e: "write_epub example_workdir example_description [''a.md'', ''b.c.md'']
      [''stylesheet.css''] example_chapter_data ''T'' ''A'' =
      (None, snd (write_epub example_workdir example_description [''a.md'', ''b.c.md'']
         [''stylesheet.css''] example_chapter_data ''T'' ''A''))"
    using example_archive by (metis prod.collapse)
  have u: "[0..<2] = [0, Suc 0]" by (simp add: upt_rec)
  note t = chapter_numbering_agrees [OF i, of "[''pic.png'']" "[''stylesheet.css'']"
        example_description example_workdir example_chapter_data "''T''" "''A''"
        "snd (write_epub example_workdir example_description [''a.md'', ''b.c.md'']
           [''stylesheet.css''] example_chapter_data ''T'' ''A'')"]
  note t' = chapter_numbering_agrees [OF i, of "[''pic.png'']" "[]"
        example_description example_workdir example_chapter_data "''T''" "''A''" "[]"]
  have href: "getAttribute (childNodes (opf_manifest
      (get_packageOPF_XML [''a.md'', ''b.c.md''] [''pic.png''] [''stylesheet.css''] example_description)) ! 4)
     ''href'' = Some ''s00001-b.xhtml''"
    using t by (simp add: chapter_href_def chapter_basename_def format_05d_example)
  have idref: "getAttribute (childNodes (opf_spine
      (get_packageOPF_XML [''a.md'', ''b.c.md''] [''pic.png''] [''stylesheet.css''] example_description)) ! 2)
     ''idref'' = Some ''s00001''"
    using t by (simp add: chapter_id_def format_05d_example numeral_2_eq_2)
  have toc: "get_TOC_XML [] [''a.md'', ''b.c.md''] =
     TOC_head @ TOC_body @ TOC_entry ''s00000-a.xhtml'' ''a'' @ TOC_entry ''s00001-b.xhtml'' ''b''
       @ TOC_tail"
    using t' by (simp add: chapter_href_def chapter_basename_def format_05d_example u)
  have ncx: "get_TOCNCX_XML [''a.md'', ''b.c.md''] =
     NCX_head @ NCX_entry 0 ''a'' ''s00000-a.xhtml'' @ NCX_entry 1 ''b'' ''s00001-b.xhtml''
       @ NCX_tail"
    using t by (simp add: chapter_href_def chapter_basename_def format_05d_example u)
  have arc: "arcname (snd (write_epub example_workdir example_description [''a.md'', ''b.c.md'']
                   [''stylesheet.css''] example_chapter_data ''T'' ''A'') ! 5) =
     ''OPS/s00001-b.xhtml''"
    using t e by (simp add: chapter_href_def chapter_basename_def format_05d_example)
  from href idref toc ncx arc show ?thesis by blast
qed

section \<open>Two builds of one project\<close>





lemma ensure_stylesheet_description [simp]:
  "description_json (ensure_stylesheet wd) = description_json wd"
  by (simp add: ensure_stylesheet_def)







end
